theory Spec2Isabelle
  imports Main
begin

section \<open>JavaScript values and the runtime the engine runs on\<close>

text \<open>
  The engine of \<^verbatim>\<open>src/kafka-pubsub.ts\<close> is the class \<^verbatim>\<open>KafkaPubSub\<close>. It is embedded
  as functions on an explicit state. What lies outside the file is kept apart:
  \<^item> \<^verbatim>\<open>JSON.stringify\<close>, \<^verbatim>\<open>JSON.parse\<close>, the string conversion of a non-string
    value and the behaviour of the subscribers' callbacks are parameters (the record
    \<open>runtime\<close>);
  \<^item> Node's \<^verbatim>\<open>EventEmitter\<close> is written out (ordered listeners, synchronous
    \<^verbatim>\<open>emit\<close>, exceptions of a listener propagating, the unhandled \<^verbatim>\<open>error\<close> event and
    the \<^verbatim>\<open>newListener\<close>/\<^verbatim>\<open>removeListener\<close> events);
  \<^item> the broker client is a trace of the calls made on it, and what it calls back are
    events of the step function.
  A \<^verbatim>\<open>Buffer\<close> is the string it holds (\<^verbatim>\<open>Buffer.from(s).toString()\<close> is \<open>s\<close>); a JSON
  number is an integer; \<^verbatim>\<open>message.value\<close> is a buffer, as in the specification's
  wire message. Subscribers' callbacks are identified by a number and do not call
  back into the engine. Of the logger, the calls of \<^verbatim>\<open>warn\<close> and \<^verbatim>\<open>error\<close> are
  recorded. The configuration objects handed to the two clients (broker list, group
  id) and the timestamp of \<^verbatim>\<open>produce\<close> are left out: no function below reads them.

  An \<^verbatim>\<open>async\<close> function runs up to its first \<^verbatim>\<open>await\<close> when it is called and goes on
  when the awaited promise settles. A promise is \<open>Pending\<close>, \<open>Fulfilled\<close> or
  \<open>Rejected\<close>; the calls that wait for a pending promise are kept, in order, as
  continuations, and run when it settles (\<open>wake_order\<close> below gives the order). A
  call whose awaited promise is already
  settled goes on at once: its continuation is a microtask, and no callback of the
  broker client runs before it.
\<close>

type_synonym buffer = string

datatype json =
  JNull | JBool bool | JNum int | JStr string | JArr "json list" | JObj "(string \<times> json) list"

datatype js_error = SyntaxError | TypeError | UnhandledError | Reason string

type_synonym callback = nat

text \<open>The closure \<^verbatim>\<open>internalMessage\<close> of one \<^verbatim>\<open>subscribe\<close> call: the number of the
  call (closures of two calls are different objects) and the \<^verbatim>\<open>onMessage\<close> it captured.\<close>

datatype listener = InternalMessage nat callback

datatype jsval = Undefined | Bytes buffer | Json json | Fn listener

record runtime =
  JSON_stringify :: "json \<Rightarrow> string"
  JSON_parse :: "string \<Rightarrow> json option"
  ToString :: "json \<Rightarrow> string"
  onMessage_raises :: "callback \<Rightarrow> jsval list \<Rightarrow> js_error option"

record options =
  topic :: string
  useHeaders :: bool
  keyFun :: "(json \<Rightarrow> buffer) option"

type_synonym header = "(string \<times> buffer) list"

record message =
  m_value :: buffer
  m_key :: "buffer option"
  m_headers :: "header list option"

record produce_args =
  p_topic :: string
  p_partition :: "nat option"
  p_value :: buffer
  p_key :: "buffer option"
  p_headers :: "header list option"

text \<open>The broker hands a consumer what was produced: value, key and headers unchanged.\<close>

definition deliver :: "produce_args \<Rightarrow> message" where
  "deliver a = \<lparr>m_value = p_value a, m_key = p_key a, m_headers = p_headers a\<rparr>"

datatype promise = Pending | Fulfilled | Rejected js_error

datatype outcome = ResolvedVoid | ResolvedId int | RejectedWith js_error

datatype client_call =
  NewProducer | ProducerConnect | ProducerDisconnect "nat option" | Produce nat produce_args
  | NewConsumer | ConsumerConnect | ConsumerSubscribe "string list" | ConsumerConsume
  | ConsumerDisconnect "nat option"

text \<open>What an \<^verbatim>\<open>async\<close> call still has to do once the promise it awaits settles.\<close>

datatype continuation =
  PublishK nat string json | SubscribeK nat string callback
  | CloseProducerK nat | CloseConsumerK nat

datatype log_level = Warn | Error

record state =
  producer :: "promise option"
  consumer :: "promise option"
  ee :: "(string \<times> listener) list"
  subscriptions :: "int \<rightharpoonup> (string \<times> listener)"
  subIdCounter :: int
  next_call :: nat
  producer_waiters :: "continuation list"
  consumer_waiters :: "continuation list"
  close_parts :: "nat \<rightharpoonup> (promise \<times> promise)"
  results :: "nat \<rightharpoonup> outcome"
  client_calls :: "client_call list"
  delivered :: "(callback \<times> jsval list) list"
  logs :: "(log_level \<times> string \<times> string list) list"
  uncaught :: "js_error list"

text \<open>The constructor: no connection, no listener, counter 0.\<close>

definition init :: state where
  "init = \<lparr>producer = None, consumer = None, ee = [], subscriptions = Map.empty,
     subIdCounter = 0, next_call = 0, producer_waiters = [], consumer_waiters = [],
     close_parts = Map.empty, results = Map.empty, client_calls = [], delivered = [],
     logs = [], uncaught = []\<rparr>"

definition log :: "log_level \<Rightarrow> string \<Rightarrow> string list \<Rightarrow> state \<Rightarrow> state" where
  "log lv fmt args s = s\<lparr>logs := logs s @ [(lv, fmt, args)]\<rparr>"

definition resolve :: "nat \<Rightarrow> outcome \<Rightarrow> state \<Rightarrow> state" where
  "resolve t out s = (if results s t = None then s\<lparr>results := (results s)(t \<mapsto> out)\<rparr> else s)"

section \<open>Serialisation\<close>

definition serialiseMessage :: "runtime \<Rightarrow> json \<Rightarrow> buffer" where
  "serialiseMessage rt msg = JSON_stringify rt msg"

text \<open>\<^verbatim>\<open>message.toString()\<close>: a type error on \<^verbatim>\<open>undefined\<close> and \<^verbatim>\<open>null\<close>; the source
  text of a function, which is never JSON.\<close>

fun toString :: "runtime \<Rightarrow> jsval \<Rightarrow> js_error + string option" where
  "toString rt Undefined = Inl TypeError"
| "toString rt (Bytes b) = Inr (Some b)"
| "toString rt (Json JNull) = Inl TypeError"
| "toString rt (Json (JStr str)) = Inr (Some str)"
| "toString rt (Json v) = Inr (Some (ToString rt v))"
| "toString rt (Fn l) = Inr None"

definition deserialiseMessage :: "runtime \<Rightarrow> jsval \<Rightarrow> js_error + json" where
  "deserialiseMessage rt msg =
     (case toString rt msg of
        Inl e \<Rightarrow> Inl e
      | Inr None \<Rightarrow> Inl SyntaxError
      | Inr (Some str) \<Rightarrow>
          (case JSON_parse rt str of None \<Rightarrow> Inl SyntaxError | Some v \<Rightarrow> Inr v))"

text \<open>Reading the property \<^verbatim>\<open>channel\<close> or \<^verbatim>\<open>payload\<close> of a parsed value: a type error on
  \<^verbatim>\<open>null\<close>, \<^verbatim>\<open>undefined\<close> on a value that has no such property.\<close>

fun get_property :: "json \<Rightarrow> string \<Rightarrow> js_error + jsval" where
  "get_property JNull k = Inl TypeError"
| "get_property (JObj fs) k = Inr (case map_of fs k of None \<Rightarrow> Undefined | Some v \<Rightarrow> Json v)"
| "get_property v k = Inr Undefined"

fun truthy :: "jsval \<Rightarrow> bool" where
  "truthy Undefined = False"
| "truthy (Json JNull) = False"
| "truthy (Json (JBool b)) = b"
| "truthy (Json (JNum n)) = (n \<noteq> 0)"
| "truthy (Json (JStr str)) = (str \<noteq> [])"
| "truthy v = True"

text \<open>The event name a value stands for when it is used as one.\<close>

fun event_name :: "runtime \<Rightarrow> jsval \<Rightarrow> string" where
  "event_name rt (Json (JStr str)) = str"
| "event_name rt (Json v) = ToString rt v"
| "event_name rt (Bytes b) = b"
| "event_name rt v = ''undefined''"

section \<open>The event emitter and the closure of subscribe\<close>

text \<open>\<^verbatim>\<open>internalMessage\<close> (lines 86 to 92): the calls of \<^verbatim>\<open>onMessage\<close> it makes, and what
  it raises.\<close>

fun internalMessage ::
  "options \<Rightarrow> runtime \<Rightarrow> listener \<Rightarrow> jsval list \<Rightarrow> (callback \<times> jsval list) list \<times> js_error option"
where
  "internalMessage cfg rt (InternalMessage i onMessage) args =
     (if useHeaders cfg then
        (case deserialiseMessage rt (case args of [] \<Rightarrow> Undefined | a # _ \<Rightarrow> a) of
           Inl e \<Rightarrow> ([], Some e)
         | Inr v \<Rightarrow> ([(onMessage, [Json v])], onMessage_raises rt onMessage [Json v]))
      else ([(onMessage, args)], onMessage_raises rt onMessage args))"

definition listeners :: "string \<Rightarrow> state \<Rightarrow> listener list" where
  "listeners ev s = map snd (filter (\<lambda>p. fst p = ev) (ee s))"

fun call_listeners ::
  "options \<Rightarrow> runtime \<Rightarrow> listener list \<Rightarrow> jsval list \<Rightarrow> state \<Rightarrow> state \<times> js_error option"
where
  "call_listeners cfg rt [] args s = (s, None)"
| "call_listeners cfg rt (l # ls) args s =
     (case internalMessage cfg rt l args of
        (calls, r) \<Rightarrow>
          (case r of
             Some e \<Rightarrow> (s\<lparr>delivered := delivered s @ calls\<rparr>, Some e)
           | None \<Rightarrow> call_listeners cfg rt ls args (s\<lparr>delivered := delivered s @ calls\<rparr>)))"

definition ee_emit ::
  "options \<Rightarrow> runtime \<Rightarrow> string \<Rightarrow> jsval list \<Rightarrow> state \<Rightarrow> state \<times> js_error option"
where
  "ee_emit cfg rt ev args s =
     (if listeners ev s = [] \<and> ev = ''error'' then (s, Some UnhandledError)
      else call_listeners cfg rt (listeners ev s) args s)"

definition ee_addListener ::
  "options \<Rightarrow> runtime \<Rightarrow> string \<Rightarrow> listener \<Rightarrow> state \<Rightarrow> state \<times> js_error option"
where
  "ee_addListener cfg rt ev l s =
     (case (if listeners ''newListener'' s \<noteq> []
            then ee_emit cfg rt ''newListener'' [Json (JStr ev), Fn l] s else (s, None)) of
        (s1, Some e) \<Rightarrow> (s1, Some e)
      | (s1, None) \<Rightarrow> (s1\<lparr>ee := ee s1 @ [(ev, l)]\<rparr>, None))"

definition remove_last :: "'a \<Rightarrow> 'a list \<Rightarrow> 'a list" where
  "remove_last x xs = rev (remove1 x (rev xs))"

definition ee_removeListener ::
  "options \<Rightarrow> runtime \<Rightarrow> string \<Rightarrow> listener \<Rightarrow> state \<Rightarrow> state \<times> js_error option"
where
  "ee_removeListener cfg rt ev l s =
     (if (ev, l) \<in> set (ee s) then
        (let s1 = s\<lparr>ee := remove_last (ev, l) (ee s)\<rparr> in
         if listeners ''removeListener'' s1 \<noteq> []
         then ee_emit cfg rt ''removeListener'' [Json (JStr ev), Fn l] s1 else (s1, None))
      else (s, None))"

section \<open>publish, subscribe, unsubscribe\<close>

definition kafkaPayload :: "options \<Rightarrow> string \<Rightarrow> json \<Rightarrow> json" where
  "kafkaPayload cfg channel payload =
     (if \<not> useHeaders cfg then JObj [(''channel'', JStr channel), (''payload'', payload)]
      else payload)"

text \<open>The arguments of \<^verbatim>\<open>produce\<close> (lines 65 to 71); the timestamp \<^verbatim>\<open>Date.now()\<close> is
  left out.\<close>

definition produce_call :: "options \<Rightarrow> runtime \<Rightarrow> string \<Rightarrow> json \<Rightarrow> produce_args" where
  "produce_call cfg rt channel payload =
     \<lparr>p_topic = topic cfg, p_partition = None,
      p_value = serialiseMessage rt (kafkaPayload cfg channel payload),
      p_key = (case keyFun cfg of Some f \<Rightarrow> Some (f (kafkaPayload cfg channel payload)) | None \<Rightarrow> None),
      p_headers = (if useHeaders cfg then Some [[(''channel'', channel)]] else None)\<rparr>"

text \<open>\<^verbatim>\<open>publish\<close> after \<^verbatim>\<open>await this.createProducer()\<close> has returned: the call of
  \<^verbatim>\<open>produce\<close>; the promise of the call settles in the callback.\<close>

definition publish_resume :: "options \<Rightarrow> runtime \<Rightarrow> nat \<Rightarrow> string \<Rightarrow> json \<Rightarrow> state \<Rightarrow> state" where
  "publish_resume cfg rt t channel payload s =
     s\<lparr>client_calls := client_calls s @ [Produce t (produce_call cfg rt channel payload)]\<rparr>"

text \<open>\<^verbatim>\<open>subscribe\<close> after \<^verbatim>\<open>await this.createConsumer()\<close> has returned (lines 86 to 96).\<close>

definition subscribe_resume ::
  "options \<Rightarrow> runtime \<Rightarrow> nat \<Rightarrow> string \<Rightarrow> callback \<Rightarrow> state \<Rightarrow> state"
where
  "subscribe_resume cfg rt t channel onMessage s =
     (case ee_addListener cfg rt channel (InternalMessage t onMessage) s of
        (s1, Some e) \<Rightarrow> resolve t (RejectedWith e) s1
      | (s1, None) \<Rightarrow>
          (let s2 = s1\<lparr>subIdCounter := subIdCounter s1 + 1\<rparr>;
               s3 = s2\<lparr>subscriptions :=
                        (subscriptions s2)(subIdCounter s2 \<mapsto> (channel, InternalMessage t onMessage))\<rparr>
           in resolve t (ResolvedId (subIdCounter s3)) s3))"

text \<open>\<^verbatim>\<open>unsubscribe\<close> is synchronous: destructuring \<^verbatim>\<open>undefined\<close> raises a type error
  before anything is written.\<close>

definition unsubscribe ::
  "options \<Rightarrow> runtime \<Rightarrow> int \<Rightarrow> state \<Rightarrow> state \<times> js_error option"
where
  "unsubscribe cfg rt index s =
     (case subscriptions s index of
        None \<Rightarrow> (s, Some TypeError)
      | Some (channel, onMessage) \<Rightarrow>
          ee_removeListener cfg rt channel onMessage
            (s\<lparr>subscriptions := (subscriptions s)(index := None)\<rparr>))"

section \<open>Connections\<close>

text \<open>Running a continuation with the outcome of the promise it awaited (\<open>None\<close>:
  fulfilled). In \<^verbatim>\<open>close\<close> the await sits inside the executor of a new promise: when
  it throws, neither \<^verbatim>\<open>resolve\<close> nor \<^verbatim>\<open>reject\<close> of that promise is called.\<close>

fun resume :: "options \<Rightarrow> runtime \<Rightarrow> js_error option \<Rightarrow> continuation \<Rightarrow> state \<Rightarrow> state" where
  "resume cfg rt (Some e) (PublishK t channel payload) s = resolve t (RejectedWith e) s"
| "resume cfg rt None (PublishK t channel payload) s = publish_resume cfg rt t channel payload s"
| "resume cfg rt (Some e) (SubscribeK t channel onMessage) s = resolve t (RejectedWith e) s"
| "resume cfg rt None (SubscribeK t channel onMessage) s = subscribe_resume cfg rt t channel onMessage s"
| "resume cfg rt (Some e) (CloseProducerK t) s = s"
| "resume cfg rt None (CloseProducerK t) s =
     s\<lparr>client_calls := client_calls s @ [ProducerDisconnect (Some t)]\<rparr>"
| "resume cfg rt (Some e) (CloseConsumerK t) s = s"
| "resume cfg rt None (CloseConsumerK t) s =
     s\<lparr>client_calls := client_calls s @ [ConsumerDisconnect (Some t)]\<rparr>"

fun resume_all :: "options \<Rightarrow> runtime \<Rightarrow> js_error option \<Rightarrow> continuation list \<Rightarrow> state \<Rightarrow> state" where
  "resume_all cfg rt r [] s = s"
| "resume_all cfg rt r (k # ks) s = resume_all cfg rt r ks (resume cfg rt r k s)"

definition await_producer :: "options \<Rightarrow> runtime \<Rightarrow> continuation \<Rightarrow> state \<Rightarrow> state" where
  "await_producer cfg rt k s =
     (case producer s of
        None \<Rightarrow> s
      | Some Pending \<Rightarrow> s\<lparr>producer_waiters := producer_waiters s @ [k]\<rparr>
      | Some Fulfilled \<Rightarrow> resume cfg rt None k s
      | Some (Rejected e) \<Rightarrow> resume cfg rt (Some e) k s)"

definition await_consumer :: "options \<Rightarrow> runtime \<Rightarrow> continuation \<Rightarrow> state \<Rightarrow> state" where
  "await_consumer cfg rt k s =
     (case consumer s of
        None \<Rightarrow> s
      | Some Pending \<Rightarrow> s\<lparr>consumer_waiters := consumer_waiters s @ [k]\<rparr>
      | Some Fulfilled \<Rightarrow> resume cfg rt None k s
      | Some (Rejected e) \<Rightarrow> resume cfg rt (Some e) k s)"

text \<open>The order in which the waiting calls go on when the memoized promise settles.
  \<^verbatim>\<open>close\<close> awaits \<^verbatim>\<open>this.producer\<close> (\<^verbatim>\<open>this.consumer\<close>) itself, so its continuation
  is a reaction of that promise. \<^verbatim>\<open>publish\<close> and \<^verbatim>\<open>subscribe\<close> await the promise that
  \<^verbatim>\<open>createProducer\<close> (\<^verbatim>\<open>createConsumer\<close>) returns, which is chained behind it through
  \<^verbatim>\<open>Promise.all\<close> and \<^verbatim>\<open>then\<close>: their continuations run some microtasks later, after
  those of every waiting \<^verbatim>\<open>close\<close>. Within each group the order of the calls is kept.\<close>

fun is_close :: "continuation \<Rightarrow> bool" where
  "is_close (CloseProducerK t) = True"
| "is_close (CloseConsumerK t) = True"
| "is_close k = False"

definition wake_order :: "continuation list \<Rightarrow> continuation list" where
  "wake_order ks = filter is_close ks @ filter (\<lambda>k. \<not> is_close k) ks"

text \<open>\<^verbatim>\<open>resolve(producer)\<close> and \<^verbatim>\<open>reject(...)\<close> of the memoized promise: a settled
  promise stays as it is; settling wakes the calls that await it.\<close>

definition settle_producer :: "options \<Rightarrow> runtime \<Rightarrow> js_error option \<Rightarrow> state \<Rightarrow> state" where
  "settle_producer cfg rt r s =
     (if producer s = Some Pending then
        resume_all cfg rt r (wake_order (producer_waiters s))
          (s\<lparr>producer := Some (case r of None \<Rightarrow> Fulfilled | Some e \<Rightarrow> Rejected e),
             producer_waiters := []\<rparr>)
      else s)"

definition settle_consumer :: "options \<Rightarrow> runtime \<Rightarrow> js_error option \<Rightarrow> state \<Rightarrow> state" where
  "settle_consumer cfg rt r s =
     (if consumer s = Some Pending then
        resume_all cfg rt r (wake_order (consumer_waiters s))
          (s\<lparr>consumer := Some (case r of None \<Rightarrow> Fulfilled | Some e \<Rightarrow> Rejected e),
             consumer_waiters := []\<rparr>)
      else s)"

text \<open>\<^verbatim>\<open>createProducer\<close> (lines 148 to 190), up to its return: the promise it returns
  follows \<^verbatim>\<open>this.producer\<close>.\<close>

definition createProducer :: "state \<Rightarrow> state" where
  "createProducer s =
     (if producer s = None then
        s\<lparr>producer := Some Pending,
          client_calls := client_calls s @ [NewProducer, ProducerConnect]\<rparr>
      else s)"

text \<open>\<^verbatim>\<open>createConsumer\<close> (lines 192 to 269), up to its return. The \<^verbatim>\<open>return\<close> that waits
  for \<^verbatim>\<open>this.consumer\<close> is inside the \<^verbatim>\<open>if\<close>: the flag says whether the promise
  returned follows \<^verbatim>\<open>this.consumer\<close> (\<open>True\<close>) or is already resolved (\<open>False\<close>).\<close>

definition createConsumer :: "state \<Rightarrow> state \<times> bool" where
  "createConsumer s =
     (if consumer s = None then
        (s\<lparr>consumer := Some Pending,
           client_calls := client_calls s @ [NewConsumer, ConsumerConnect]\<rparr>, True)
      else (s, False))"

definition topic_error :: js_error where
  "topic_error = Reason ''Could not find requested topic %s''"

text \<open>The \<^verbatim>\<open>ready\<close> handlers (lines 170 to 181 and 245 to 259).\<close>

definition producer_on_ready :: "options \<Rightarrow> runtime \<Rightarrow> string list \<Rightarrow> state \<Rightarrow> state" where
  "producer_on_ready cfg rt topics s =
     (if topic cfg \<in> set topics then settle_producer cfg rt None s
      else settle_producer cfg rt (Some topic_error)
             ((log Error ''Could not find requested topic %s'' [topic cfg] s)
                \<lparr>client_calls := client_calls s @ [ProducerDisconnect None]\<rparr>))"

definition consumer_on_ready :: "options \<Rightarrow> runtime \<Rightarrow> string list \<Rightarrow> state \<Rightarrow> state" where
  "consumer_on_ready cfg rt topics s =
     (if topic cfg \<in> set topics then
        settle_consumer cfg rt None
          (s\<lparr>client_calls := client_calls s @ [ConsumerSubscribe [topic cfg], ConsumerConsume]\<rparr>)
      else settle_consumer cfg rt (Some topic_error)
             ((log Error ''Could not find requested topic %s'' [topic cfg] s)
                \<lparr>client_calls := client_calls s @ [ConsumerDisconnect None]\<rparr>))"

text \<open>The \<^verbatim>\<open>data\<close> handler of the consumer (lines 215 to 239): the state after it and
  the exception it raises, if any.\<close>

definition consumer_on_data ::
  "options \<Rightarrow> runtime \<Rightarrow> message \<Rightarrow> state \<Rightarrow> state \<times> js_error option"
where
  "consumer_on_data cfg rt msg s =
     (case (if useHeaders cfg then m_headers msg else None) of
        Some hs \<Rightarrow>
          (case List.find (\<lambda>h. map_of h ''channel'' \<noteq> None) hs of
             Some channelHeader \<Rightarrow>
               (case map_of channelHeader ''channel'' of
                  Some channel \<Rightarrow> ee_emit cfg rt channel [Bytes (m_value msg)] s
                | None \<Rightarrow> (s, Some TypeError))
           | None \<Rightarrow> (log Warn ''Missing 'channel' header'' [] s, None))
      | None \<Rightarrow>
          (case deserialiseMessage rt (Bytes (m_value msg)) of
             Inl e \<Rightarrow> (s, Some e)
           | Inr parsedMessage \<Rightarrow>
               (case get_property parsedMessage ''channel'' of
                  Inl e \<Rightarrow> (s, Some e)
                | Inr channel \<Rightarrow>
                    if truthy channel then
                      (case get_property parsedMessage ''payload'' of
                         Inl e \<Rightarrow> (s, Some e)
                       | Inr payload \<Rightarrow> ee_emit cfg rt (event_name rt channel) [payload] s)
                    else ee_emit cfg rt (topic cfg) [Json parsedMessage] s)))"

section \<open>The calls of the interface and the callbacks of the broker client\<close>

definition publish :: "options \<Rightarrow> runtime \<Rightarrow> string \<Rightarrow> json \<Rightarrow> state \<Rightarrow> state" where
  "publish cfg rt channel payload s =
     await_producer cfg rt (PublishK (next_call s) channel payload)
       (createProducer (s\<lparr>next_call := Suc (next_call s)\<rparr>))"

definition subscribe :: "options \<Rightarrow> runtime \<Rightarrow> string \<Rightarrow> callback \<Rightarrow> state \<Rightarrow> state" where
  "subscribe cfg rt channel onMessage s =
     (case createConsumer (s\<lparr>next_call := Suc (next_call s)\<rparr>) of
        (s1, waits) \<Rightarrow>
          if waits then await_consumer cfg rt (SubscribeK (next_call s) channel onMessage) s1
          else subscribe_resume cfg rt (next_call s) channel onMessage s1)"

text \<open>\<^verbatim>\<open>Promise.all\<close> of the two promises of one \<^verbatim>\<open>close\<close> call: rejected by the first
  rejection, fulfilled once both are.\<close>

definition promise_all :: "nat \<Rightarrow> state \<Rightarrow> state" where
  "promise_all t s =
     (case close_parts s t of
        None \<Rightarrow> s
      | Some (Rejected e, c) \<Rightarrow> resolve t (RejectedWith e) s
      | Some (p, Rejected e) \<Rightarrow> resolve t (RejectedWith e) s
      | Some (Fulfilled, Fulfilled) \<Rightarrow> resolve t ResolvedVoid s
      | Some (p, c) \<Rightarrow> s)"

definition close :: "options \<Rightarrow> runtime \<Rightarrow> state \<Rightarrow> state" where
  "close cfg rt s =
     (let t = next_call s;
          s0 = s\<lparr>next_call := Suc t, close_parts := (close_parts s)(t \<mapsto> (Pending, Pending))\<rparr>;
          s1 = (if producer s0 \<noteq> None then await_producer cfg rt (CloseProducerK t) s0 else s0)
      in if consumer s1 \<noteq> None then await_consumer cfg rt (CloseConsumerK t) s1 else s1)"

definition settled :: "js_error option \<Rightarrow> promise" where
  "settled err = (case err of None \<Rightarrow> Fulfilled | Some e \<Rightarrow> Rejected e)"

text \<open>The callbacks handed to \<^verbatim>\<open>disconnect\<close> by \<^verbatim>\<open>close\<close> (lines 110 to 116 and 123 to
  129) and to \<^verbatim>\<open>produce\<close> by \<^verbatim>\<open>publish\<close> (lines 72 to 78). A callback that was
  never handed out is not called.\<close>

definition producer_disconnect_callback :: "nat \<Rightarrow> js_error option \<Rightarrow> state \<Rightarrow> state" where
  "producer_disconnect_callback t err s =
     (if ProducerDisconnect (Some t) \<in> set (client_calls s) then
        (case close_parts s t of
           Some (Pending, c) \<Rightarrow> promise_all t (s\<lparr>close_parts := (close_parts s)(t \<mapsto> (settled err, c))\<rparr>)
         | _ \<Rightarrow> s)
      else s)"

definition consumer_disconnect_callback :: "nat \<Rightarrow> js_error option \<Rightarrow> state \<Rightarrow> state" where
  "consumer_disconnect_callback t err s =
     (if ConsumerDisconnect (Some t) \<in> set (client_calls s) then
        (case close_parts s t of
           Some (p, Pending) \<Rightarrow> promise_all t (s\<lparr>close_parts := (close_parts s)(t \<mapsto> (p, settled err))\<rparr>)
         | _ \<Rightarrow> s)
      else s)"

definition produce_callback :: "nat \<Rightarrow> js_error option \<Rightarrow> state \<Rightarrow> state" where
  "produce_callback t err s =
     (if list_ex (\<lambda>c. case c of Produce t' a \<Rightarrow> t' = t | _ \<Rightarrow> False) (client_calls s) then
        resolve t (case err of None \<Rightarrow> ResolvedVoid | Some e \<Rightarrow> RejectedWith e) s
      else s)"

datatype event =
  Publish string json | Subscribe string callback | Unsubscribe int | Close
  | ProducerReady "string list" | ConsumerReady "string list" | ConsumerData message
  | ProduceCallback nat "js_error option"
  | ProducerDisconnected nat "js_error option" | ConsumerDisconnected nat "js_error option"

text \<open>One event of the engine's life: a call of the interface, numbered by
  \<open>next_call\<close> (the number names the promise the call returns, settled in
  \<open>results\<close>), or a callback of the broker client. The handlers of a client exist
  once the client does, and data arrives once \<^verbatim>\<open>consume\<close> was called; an exception
  that leaves the data handler is recorded as uncaught, the exception of
  \<^verbatim>\<open>unsubscribe\<close> goes to its caller.\<close>

fun step :: "options \<Rightarrow> runtime \<Rightarrow> state \<Rightarrow> event \<Rightarrow> state" where
  "step cfg rt s (Publish channel payload) = publish cfg rt channel payload s"
| "step cfg rt s (Subscribe channel onMessage) = subscribe cfg rt channel onMessage s"
| "step cfg rt s (Unsubscribe index) = fst (unsubscribe cfg rt index s)"
| "step cfg rt s Close = close cfg rt s"
| "step cfg rt s (ProducerReady topics) =
     (if producer s = None then s else producer_on_ready cfg rt topics s)"
| "step cfg rt s (ConsumerReady topics) =
     (if consumer s = None then s else consumer_on_ready cfg rt topics s)"
| "step cfg rt s (ConsumerData msg) =
     (if ConsumerConsume \<in> set (client_calls s) then
        (case consumer_on_data cfg rt msg s of
           (s1, None) \<Rightarrow> s1
         | (s1, Some e) \<Rightarrow> s1\<lparr>uncaught := uncaught s1 @ [e]\<rparr>)
      else s)"
| "step cfg rt s (ProduceCallback t err) = produce_callback t err s"
| "step cfg rt s (ProducerDisconnected t err) = producer_disconnect_callback t err s"
| "step cfg rt s (ConsumerDisconnected t err) = consumer_disconnect_callback t err s"

definition run :: "options \<Rightarrow> runtime \<Rightarrow> event list \<Rightarrow> state \<Rightarrow> state" where
  "run cfg rt evs s = foldl (step cfg rt) s evs"

section \<open>Notions used by the theorems\<close>

text \<open>What a dispatch over the listeners \<open>ls\<close> calls and raises, without the state.\<close>

fun invocations ::
  "options \<Rightarrow> runtime \<Rightarrow> listener list \<Rightarrow> jsval list \<Rightarrow> (callback \<times> jsval list) list \<times> js_error option"
where
  "invocations cfg rt [] args = ([], None)"
| "invocations cfg rt (l # ls) args =
     (case internalMessage cfg rt l args of
        (calls, Some e) \<Rightarrow> (calls, Some e)
      | (calls, None) \<Rightarrow>
          (case invocations cfg rt ls args of (cs, r) \<Rightarrow> (calls @ cs, r)))"

definition quiet :: "options \<Rightarrow> runtime \<Rightarrow> jsval list \<Rightarrow> listener \<Rightarrow> bool" where
  "quiet cfg rt args l = (snd (internalMessage cfg rt l args) = None)"

fun onMessage_of :: "listener \<Rightarrow> callback" where
  "onMessage_of (InternalMessage i onMessage) = onMessage"

text \<open>The call whose promise a continuation settles; the continuations of \<^verbatim>\<open>close\<close>
  settle none themselves.\<close>

fun ticket :: "continuation \<Rightarrow> nat option" where
  "ticket (PublishK t channel payload) = Some t"
| "ticket (SubscribeK t channel onMessage) = Some t"
| "ticket k = None"

text \<open>The state once the connections that are still pending have become ready: the
  \<^verbatim>\<open>ready\<close> handler runs with metadata that lists the configured topic.\<close>

definition connections_ready :: "options \<Rightarrow> runtime \<Rightarrow> state \<Rightarrow> state" where
  "connections_ready cfg rt s =
     (let s1 = (if producer s = Some Pending then producer_on_ready cfg rt [topic cfg] s else s)
      in if consumer s1 = Some Pending then consumer_on_ready cfg rt [topic cfg] s1 else s1)"

text \<open>The \<^verbatim>\<open>close\<close> call \<open>t\<close> has handed its callback to both \<^verbatim>\<open>disconnect\<close> calls,
  neither callback has been called, and the promise of the call is pending.\<close>

definition close_open :: "nat \<Rightarrow> state \<Rightarrow> bool" where
  "close_open t s =
     (close_parts s t = Some (Pending, Pending) \<and> results s t = None \<and>
      ProducerDisconnect (Some t) \<in> set (client_calls s) \<and>
      ConsumerDisconnect (Some t) \<in> set (client_calls s))"

definition producers_created :: "state \<Rightarrow> nat" where
  "producers_created s = length (filter (\<lambda>c. c = NewProducer) (client_calls s))"

definition consumers_created :: "state \<Rightarrow> nat" where
  "consumers_created s = length (filter (\<lambda>c. c = NewConsumer) (client_calls s))"

text \<open>The part of the state the connection invariant reads.\<close>

definition conn :: "state \<Rightarrow> bool \<times> bool \<times> nat \<times> nat" where
  "conn s = (producer s = None, consumer s = None, producers_created s, consumers_created s)"

definition conn_ok :: "state \<Rightarrow> bool" where
  "conn_ok s =
     (producers_created s = (if producer s = None then 0 else 1) \<and>
      consumers_created s = (if consumer s = None then 0 else 1))"

text \<open>A runtime for the examples: JSON and the string conversion on the few texts and
  values the examples use (every other text is taken as malformed); callback 1 raises
  on every call, the others never do.\<close>

definition example_parse :: "string \<Rightarrow> json option" where
  \<open>example_parse str =
     (if str = ''42'' then Some (JNum 42)
      else if str = ''null'' then Some JNull
      else if str = ''{"id":42}'' then Some (JObj [(''id'', JNum 42)])
      else if str = ''{"channel":"orders","payload":42}''
        then Some (JObj [(''channel'', JStr ''orders''), (''payload'', JNum 42)])
      else if str = ''{"channel":"","payload":42}''
        then Some (JObj [(''channel'', JStr []), (''payload'', JNum 42)])
      else None)\<close>

definition example_stringify :: "json \<Rightarrow> string" where
  \<open>example_stringify v =
     (if v = JNum 42 then ''42''
      else if v = JObj [(''id'', JNum 42)] then ''{"id":42}''
      else if v = JObj [(''channel'', JStr ''orders''), (''payload'', JNum 42)]
        then ''{"channel":"orders","payload":42}''
      else if v = JObj [(''channel'', JStr []), (''payload'', JNum 42)]
        then ''{"channel":"","payload":42}''
      else ''null'')\<close>

definition rt_example :: runtime where
  "rt_example =
     \<lparr>JSON_stringify = example_stringify, JSON_parse = example_parse,
      ToString = (\<lambda>v. if v = JNum 42 then ''42'' else ''[object Object]''),
      onMessage_raises = (\<lambda>cb args. if cb = 1 then Some (Reason ''boom'') else None)\<rparr>"

definition cfg_envelope :: options where
  "cfg_envelope = \<lparr>topic = ''events'', useHeaders = False, keyFun = None\<rparr>"

definition cfg_headers :: options where
  "cfg_headers = \<lparr>topic = ''events'', useHeaders = True, keyFun = None\<rparr>"

section \<open>Unfolding the engine on concrete runs\<close>

lemmas engine_defs =
  run_def publish_def subscribe_def close_def createProducer_def createConsumer_def
  await_producer_def await_consumer_def settle_producer_def settle_consumer_def
  producer_on_ready_def consumer_on_ready_def consumer_on_data_def
  publish_resume_def subscribe_resume_def ee_addListener_def ee_emit_def listeners_def
  resolve_def log_def init_def deserialiseMessage_def produce_call_def deliver_def
  kafkaPayload_def serialiseMessage_def topic_error_def
  producer_disconnect_callback_def consumer_disconnect_callback_def produce_callback_def
  promise_all_def settled_def wake_order_def

lemmas example_defs =
  rt_example_def cfg_envelope_def cfg_headers_def example_parse_def example_stringify_def

section \<open>The dispatch, without the state\<close>

lemma call_listeners_invocations:
  "call_listeners cfg rt ls args s =
     (s\<lparr>delivered := delivered s @ fst (invocations cfg rt ls args)\<rparr>,
      snd (invocations cfg rt ls args))"
proof (induction ls arbitrary: s)
  case Nil
  show ?case by simp
next
  case (Cons l ls)
  obtain calls r where im: "internalMessage cfg rt l args = (calls, r)"
    by (cases "internalMessage cfg rt l args")
  show ?case
  proof (cases r)
    case None
    with im Cons show ?thesis by (simp split: prod.splits)
  next
    case (Some e)
    with im show ?thesis by simp
  qed
qed

lemma invocations_envelope:
  "\<not> useHeaders cfg \<Longrightarrow> \<forall>l\<in>set ls. onMessage_raises rt (onMessage_of l) args = None \<Longrightarrow>
     invocations cfg rt ls args = (map (\<lambda>l. (onMessage_of l, args)) ls, None)"
proof (induction ls)
  case Nil
  show ?case by simp
next
  case (Cons l ls)
  then show ?case by (cases l) simp
qed

lemma invocations_headers:
  "useHeaders cfg \<Longrightarrow> JSON_parse rt b = Some v \<Longrightarrow>
   \<forall>l\<in>set ls. onMessage_raises rt (onMessage_of l) [Json v] = None \<Longrightarrow>
     invocations cfg rt ls [Bytes b] = (map (\<lambda>l. (onMessage_of l, [Json v])) ls, None)"
proof (induction ls)
  case Nil
  show ?case by simp
next
  case (Cons l ls)
  then show ?case by (cases l) (simp add: deserialiseMessage_def)
qed

lemma invocations_append:
  "snd (invocations cfg rt ls args) = None \<Longrightarrow>
     invocations cfg rt (ls @ ls') args =
       (fst (invocations cfg rt ls args) @ fst (invocations cfg rt ls' args),
        snd (invocations cfg rt ls' args))"
proof (induction ls)
  case Nil
  show ?case by simp
next
  case (Cons l ls)
  then show ?case
    by (cases "internalMessage cfg rt l args") (auto split: option.splits prod.splits)
qed

lemma invocations_prefix:
  "invocations cfg rt ls args =
     (concat (map (\<lambda>l. fst (internalMessage cfg rt l args))
        (take (Suc (length (takeWhile (quiet cfg rt args) ls))) ls)),
      if length (takeWhile (quiet cfg rt args) ls) < length ls
      then snd (internalMessage cfg rt (ls ! length (takeWhile (quiet cfg rt args) ls)) args)
      else None)"
proof (induction ls)
  case Nil
  show ?case by simp
next
  case (Cons l ls)
  obtain calls r where im: "internalMessage cfg rt l args = (calls, r)"
    by (cases "internalMessage cfg rt l args")
  show ?case
  proof (cases r)
    case None
    with im have "quiet cfg rt args l" by (simp add: quiet_def)
    with im None Cons show ?thesis by (simp split: prod.splits)
  next
    case (Some e)
    with im have "\<not> quiet cfg rt args l" by (simp add: quiet_def)
    with im Some show ?thesis by simp
  qed
qed

lemma ee_emit_delivered:
  "delivered (fst (ee_emit cfg rt ev args s)) =
     delivered s @ fst (invocations cfg rt (listeners ev s) args)"
  by (auto simp add: ee_emit_def call_listeners_invocations)

lemma ee_emit_ee [simp]: "ee (fst (ee_emit cfg rt ev args s)) = ee s"
  by (simp add: ee_emit_def call_listeners_invocations)

lemma listeners_delivered [simp]: "listeners ev (s\<lparr>delivered := d\<rparr>) = listeners ev s"
  by (simp add: listeners_def)

lemma ee_addListener_ee:
  "snd (ee_addListener cfg rt ev l s) = None \<Longrightarrow>
     ee (fst (ee_addListener cfg rt ev l s)) = ee s @ [(ev, l)]"
  by (auto simp add: ee_addListener_def split: prod.splits option.splits if_splits
      dest: arg_cong [where f = "\<lambda>p. ee (fst p)"])

lemma subscribe_resume_listeners:
  "snd (ee_addListener cfg rt channel (InternalMessage t onMessage) s) = None \<Longrightarrow>
     listeners channel (subscribe_resume cfg rt t channel onMessage s) =
       listeners channel s @ [InternalMessage t onMessage]"
  using ee_addListener_ee [of cfg rt channel "InternalMessage t onMessage" s]
  by (cases "ee_addListener cfg rt channel (InternalMessage t onMessage) s")
     (simp add: subscribe_resume_def resolve_def listeners_def Let_def)

section \<open>Round trip\<close>

text \<open>
  C1 (amended). Let \<^verbatim>\<open>subscribe(channel, onMessage)\<close> have registered its listener, and
  let the message that \<^verbatim>\<open>publish(channel, payload)\<close> produces come back from the
  broker. If JSON round-trips what \<^verbatim>\<open>publish\<close> serialises, if the channel is not the
  empty string in envelope mode, and if no listener registered earlier for the channel
  raises on the payload, then the data handler calls every listener of the channel with
  exactly the payload, \<^verbatim>\<open>onMessage\<close> last, in header mode and in envelope mode.
\<close>

theorem round_trip:
  assumes json: "JSON_parse rt (JSON_stringify rt (kafkaPayload cfg channel payload)) =
      Some (kafkaPayload cfg channel payload)"
    and chan: "useHeaders cfg \<or> channel \<noteq> []"
    and added: "snd (ee_addListener cfg rt channel (InternalMessage t onMessage) s) = None"
    and earlier: "\<forall>l\<in>set (listeners channel s). onMessage_raises rt (onMessage_of l) [Json payload] = None"
  shows "delivered (fst (consumer_on_data cfg rt (deliver (produce_call cfg rt channel payload))
            (subscribe_resume cfg rt t channel onMessage s))) =
         delivered (subscribe_resume cfg rt t channel onMessage s) @
           map (\<lambda>l. (onMessage_of l, [Json payload])) (listeners channel s) @
           [(onMessage, [Json payload])]"
proof (cases "useHeaders cfg")
  case True
  let ?s' = "subscribe_resume cfg rt t channel onMessage s"
  let ?b = "JSON_stringify rt payload"
  from True json have parse: "JSON_parse rt ?b = Some payload"
    by (simp add: kafkaPayload_def)
  from True have "consumer_on_data cfg rt (deliver (produce_call cfg rt channel payload)) ?s' =
      ee_emit cfg rt channel [Bytes ?b] ?s'"
    by (simp add: consumer_on_data_def deliver_def produce_call_def serialiseMessage_def
        kafkaPayload_def)
  moreover have "invocations cfg rt (listeners channel s) [Bytes ?b] =
      (map (\<lambda>l. (onMessage_of l, [Json payload])) (listeners channel s), None)"
    using True parse earlier by (rule invocations_headers)
  moreover have "invocations cfg rt [InternalMessage t onMessage] [Bytes ?b] =
      ([(onMessage, [Json payload])], onMessage_raises rt onMessage [Json payload])"
    using True parse by (simp add: deserialiseMessage_def split: option.splits)
  ultimately show ?thesis
    by (simp add: ee_emit_delivered subscribe_resume_listeners [OF added] invocations_append)
next
  case False
  let ?s' = "subscribe_resume cfg rt t channel onMessage s"
  from False chan have ne: "channel \<noteq> []" by simp
  from False json ne have "consumer_on_data cfg rt (deliver (produce_call cfg rt channel payload)) ?s' =
      ee_emit cfg rt channel [Json payload] ?s'"
    by (simp add: consumer_on_data_def deliver_def produce_call_def serialiseMessage_def
        kafkaPayload_def deserialiseMessage_def)
  moreover have "invocations cfg rt (listeners channel s) [Json payload] =
      (map (\<lambda>l. (onMessage_of l, [Json payload])) (listeners channel s), None)"
    using False earlier by (rule invocations_envelope)
  moreover have "invocations cfg rt [InternalMessage t onMessage] [Json payload] =
      ([(onMessage, [Json payload])], onMessage_raises rt onMessage [Json payload])"
    using False by (simp split: option.splits)
  ultimately show ?thesis
    by (simp add: ee_emit_delivered subscribe_resume_listeners [OF added] invocations_append)
qed

theorem round_trip_witness:
  "delivered (fst (consumer_on_data cfg_envelope rt_example
       (deliver (produce_call cfg_envelope rt_example ''orders'' (JNum 42)))
       (subscribe_resume cfg_envelope rt_example 0 ''orders'' 5 init))) = [(5, [Json (JNum 42)])] \<and>
   delivered (fst (consumer_on_data cfg_headers rt_example
       (deliver (produce_call cfg_headers rt_example [] (JNum 42)))
       (subscribe_resume cfg_headers rt_example 0 [] 5 init))) = [(5, [Json (JNum 42)])]"
  using round_trip [of rt_example cfg_envelope "''orders''" "JNum 42" 0 5 init]
    round_trip [of rt_example cfg_headers "[]" "JNum 42" 0 5 init]
  by (simp add: engine_defs example_defs)

text \<open>The scenario of the specification: \<^verbatim>\<open>subscribe("orders", cb)\<close>, then
  \<^verbatim>\<open>publish("orders", 42)\<close> on the topic \<^verbatim>\<open>events\<close> in envelope mode; the callback is
  called once, with 42.\<close>

lemma example_scenario:
  "delivered (run cfg_envelope rt_example
     [Subscribe ''orders'' 5, ConsumerReady [''events''], Publish ''orders'' (JNum 42),
      ProducerReady [''events''],
      ConsumerData (deliver (produce_call cfg_envelope rt_example ''orders'' (JNum 42)))] init)
   = [(5, [Json (JNum 42)])]"
  by (simp add: engine_defs example_defs)

text \<open>
  C1 as stated fails for the empty channel in envelope mode: the data handler tests
  the \<^verbatim>\<open>channel\<close> field for truthiness, the empty string is falsy, and the message is
  dispatched on the topic name instead. The listener subscribed to the empty channel
  is not called.
\<close>

theorem round_trip_counterexample:
  "delivered (run cfg_envelope rt_example
     [Subscribe [] 5, ConsumerReady [''events''], Publish [] (JNum 42), ProducerReady [''events''],
      ConsumerData (deliver (produce_call cfg_envelope rt_example [] (JNum 42)))] init) = []"
  by (simp add: engine_defs example_defs)

section \<open>A single connection in each direction\<close>

lemma conn_update [simp]:
  "conn (s\<lparr>delivered := d\<rparr>) = conn s"
  "conn (s\<lparr>ee := e\<rparr>) = conn s"
  "conn (s\<lparr>subscriptions := m\<rparr>) = conn s"
  "conn (s\<lparr>subIdCounter := n\<rparr>) = conn s"
  "conn (s\<lparr>next_call := k\<rparr>) = conn s"
  "conn (s\<lparr>producer_waiters := pw\<rparr>) = conn s"
  "conn (s\<lparr>consumer_waiters := cw\<rparr>) = conn s"
  "conn (s\<lparr>close_parts := cp\<rparr>) = conn s"
  "conn (s\<lparr>results := r\<rparr>) = conn s"
  "conn (s\<lparr>logs := lg\<rparr>) = conn s"
  "conn (s\<lparr>uncaught := u\<rparr>) = conn s"
  by (simp_all add: conn_def producers_created_def consumers_created_def)

lemma conn_client_call [simp]:
  "c \<noteq> NewProducer \<Longrightarrow> c \<noteq> NewConsumer \<Longrightarrow>
     conn (s\<lparr>client_calls := client_calls s @ [c]\<rparr>) = conn s"
  by (simp add: conn_def producers_created_def consumers_created_def)

lemma conn_settled [simp]:
  "producer s \<noteq> None \<Longrightarrow> conn (s\<lparr>producer := Some p\<rparr>) = conn s"
  "consumer s \<noteq> None \<Longrightarrow> conn (s\<lparr>consumer := Some p\<rparr>) = conn s"
  by (simp_all add: conn_def producers_created_def consumers_created_def)

lemma conn_call_listeners [simp]: "conn (fst (call_listeners cfg rt ls args s)) = conn s"
  by (simp add: call_listeners_invocations)

lemma conn_ee_emit [simp]: "conn (fst (ee_emit cfg rt ev args s)) = conn s"
  by (simp add: ee_emit_def)

lemma conn_ee_addListener [simp]: "conn (fst (ee_addListener cfg rt ev l s)) = conn s"
proof (cases "listeners ''newListener'' s \<noteq> []")
  case True
  obtain s1 r where e: "ee_emit cfg rt ''newListener'' [Json (JStr ev), Fn l] s = (s1, r)"
    by (cases "ee_emit cfg rt ''newListener'' [Json (JStr ev), Fn l] s")
  then have "conn s1 = conn s"
    using conn_ee_emit [of cfg rt "''newListener''" "[Json (JStr ev), Fn l]" s] by simp
  with True e show ?thesis by (cases r) (simp_all add: ee_addListener_def)
next
  case False
  then show ?thesis by (simp add: ee_addListener_def)
qed

lemma conn_ee_removeListener [simp]: "conn (fst (ee_removeListener cfg rt ev l s)) = conn s"
  by (simp add: ee_removeListener_def Let_def)

lemma conn_resolve [simp]: "conn (resolve t out s) = conn s"
  by (simp add: resolve_def)

lemma conn_log [simp]: "conn (log lv fmt args s) = conn s"
  by (simp add: log_def)

lemma conn_publish_resume [simp]: "conn (publish_resume cfg rt t channel payload s) = conn s"
  by (simp add: publish_resume_def)

lemma conn_subscribe_resume [simp]: "conn (subscribe_resume cfg rt t channel onMessage s) = conn s"
proof -
  obtain s1 r where a: "ee_addListener cfg rt channel (InternalMessage t onMessage) s = (s1, r)"
    by (cases "ee_addListener cfg rt channel (InternalMessage t onMessage) s")
  then have "conn s1 = conn s"
    using conn_ee_addListener [of cfg rt channel "InternalMessage t onMessage" s] by simp
  with a show ?thesis by (cases r) (simp_all add: subscribe_resume_def Let_def)
qed

lemma conn_resume [simp]: "conn (resume cfg rt r k s) = conn s"
  by (cases r; cases k) simp_all

lemma conn_resume_all [simp]: "conn (resume_all cfg rt r ks s) = conn s"
  by (induction ks arbitrary: s) simp_all

lemma conn_await_producer [simp]: "conn (await_producer cfg rt k s) = conn s"
  by (simp add: await_producer_def split: option.splits promise.splits)

lemma conn_await_consumer [simp]: "conn (await_consumer cfg rt k s) = conn s"
  by (simp add: await_consumer_def split: option.splits promise.splits)

lemma conn_settle_producer [simp]: "conn (settle_producer cfg rt r s) = conn s"
  by (simp add: settle_producer_def)

lemma conn_settle_consumer [simp]: "conn (settle_consumer cfg rt r s) = conn s"
  by (simp add: settle_consumer_def)

lemma conn_producer_on_ready [simp]: "conn (producer_on_ready cfg rt topics s) = conn s"
proof -
  have "conn ((log Error ''Could not find requested topic %s'' [topic cfg] s)
      \<lparr>client_calls := client_calls s @ [ProducerDisconnect None]\<rparr>) = conn s"
    by (simp add: log_def conn_def producers_created_def consumers_created_def)
  then show ?thesis by (simp add: producer_on_ready_def)
qed

lemma conn_consumer_on_ready [simp]: "conn (consumer_on_ready cfg rt topics s) = conn s"
proof -
  have "conn ((log Error ''Could not find requested topic %s'' [topic cfg] s)
      \<lparr>client_calls := client_calls s @ [ConsumerDisconnect None]\<rparr>) = conn s"
    by (simp add: log_def conn_def producers_created_def consumers_created_def)
  moreover have "conn (s\<lparr>client_calls := client_calls s @ [ConsumerSubscribe [topic cfg], ConsumerConsume]\<rparr>)
      = conn s"
    by (simp add: conn_def producers_created_def consumers_created_def)
  ultimately show ?thesis by (simp add: consumer_on_ready_def)
qed

lemma conn_consumer_on_data [simp]: "conn (fst (consumer_on_data cfg rt msg s)) = conn s"
  by (simp add: consumer_on_data_def split: option.splits sum.splits)

lemma conn_unsubscribe [simp]: "conn (fst (unsubscribe cfg rt index s)) = conn s"
  by (simp add: unsubscribe_def split: option.splits)

lemma conn_promise_all [simp]: "conn (promise_all t s) = conn s"
  by (simp add: promise_all_def split: option.splits promise.splits)

lemma conn_callbacks [simp]:
  "conn (producer_disconnect_callback t err s) = conn s"
  "conn (consumer_disconnect_callback t err s) = conn s"
  "conn (produce_callback t err s) = conn s"
  by (simp_all add: producer_disconnect_callback_def consumer_disconnect_callback_def
      produce_callback_def split: option.splits promise.splits)

lemma conn_close [simp]: "conn (close cfg rt s) = conn s"
  by (simp add: close_def Let_def)

lemma conn_createProducer:
  "conn (createProducer s) =
     (False, consumer s = None, (if producer s = None then Suc (producers_created s) else producers_created s),
      consumers_created s)"
  by (simp add: createProducer_def conn_def producers_created_def consumers_created_def)

lemma conn_createConsumer:
  "conn (fst (createConsumer s)) =
     (producer s = None, False, producers_created s,
      (if consumer s = None then Suc (consumers_created s) else consumers_created s))"
  by (simp add: createConsumer_def conn_def producers_created_def consumers_created_def)

lemma conn_publish:
  "conn (publish cfg rt channel payload s) =
     (False, consumer s = None, (if producer s = None then Suc (producers_created s) else producers_created s),
      consumers_created s)"
  by (simp add: publish_def conn_createProducer)
     (simp add: conn_def producers_created_def consumers_created_def)

lemma conn_subscribe:
  "conn (subscribe cfg rt channel onMessage s) =
     (producer s = None, False, producers_created s,
      (if consumer s = None then Suc (consumers_created s) else consumers_created s))"
proof -
  obtain s1 w where c: "createConsumer (s\<lparr>next_call := Suc (next_call s)\<rparr>) = (s1, w)"
    by (cases "createConsumer (s\<lparr>next_call := Suc (next_call s)\<rparr>)")
  then have "conn s1 = conn (fst (createConsumer (s\<lparr>next_call := Suc (next_call s)\<rparr>)))"
    by simp
  also have "\<dots> = (producer s = None, False, producers_created s,
      (if consumer s = None then Suc (consumers_created s) else consumers_created s))"
    by (simp add: conn_createConsumer) (simp add: conn_def producers_created_def consumers_created_def)
  finally show ?thesis using c by (simp add: subscribe_def)
qed

lemma conn_data_step [simp]:
  "conn (case consumer_on_data cfg rt msg s of
           (s1, None) \<Rightarrow> s1
         | (s1, Some e) \<Rightarrow> s1\<lparr>uncaught := uncaught s1 @ [e]\<rparr>) = conn s"
proof -
  obtain s1 r where d: "consumer_on_data cfg rt msg s = (s1, r)"
    by (cases "consumer_on_data cfg rt msg s")
  then have "conn s1 = conn s"
    using conn_consumer_on_data [of cfg rt msg s] by simp
  with d show ?thesis by (cases r) simp_all
qed

lemma conn_step_other:
  "(\<forall>c p. ev \<noteq> Publish c p) \<Longrightarrow> (\<forall>c cb. ev \<noteq> Subscribe c cb) \<Longrightarrow> conn (step cfg rt s ev) = conn s"
  by (cases ev) simp_all

lemma conn_step:
  "conn (step cfg rt s ev) =
     (case ev of
        Publish c p \<Rightarrow> (False, consumer s = None,
          (if producer s = None then Suc (producers_created s) else producers_created s), consumers_created s)
      | Subscribe c cb \<Rightarrow> (producer s = None, False, producers_created s,
          (if consumer s = None then Suc (consumers_created s) else consumers_created s))
      | _ \<Rightarrow> conn s)"
  by (cases ev) (simp_all add: conn_publish conn_subscribe conn_step_other)

lemma conn_ok_step: "conn_ok s \<Longrightarrow> conn_ok (step cfg rt s ev)"
  using conn_step [of cfg rt s ev]
  by (cases ev) (auto simp add: conn_ok_def conn_def split: if_splits)

lemma conn_ok_run: "conn_ok s \<Longrightarrow> conn_ok (run cfg rt evs s)"
  unfolding run_def by (induction evs arbitrary: s) (simp_all add: conn_ok_step)

lemma producer_step:
  "producer s \<noteq> None \<Longrightarrow>
     producer (step cfg rt s ev) \<noteq> None \<and> producers_created (step cfg rt s ev) = producers_created s"
  using conn_step [of cfg rt s ev]
  by (cases ev) (auto simp add: conn_def split: if_splits)

lemma consumer_step:
  "consumer s \<noteq> None \<Longrightarrow>
     consumer (step cfg rt s ev) \<noteq> None \<and> consumers_created (step cfg rt s ev) = consumers_created s"
  using conn_step [of cfg rt s ev]
  by (cases ev) (auto simp add: conn_def split: if_splits)

lemma producer_run:
  "producer s \<noteq> None \<Longrightarrow>
     producer (run cfg rt evs s) \<noteq> None \<and> producers_created (run cfg rt evs s) = producers_created s"
  unfolding run_def
proof (induction evs arbitrary: s)
  case Nil
  then show ?case by simp
next
  case (Cons ev evs)
  from producer_step [OF Cons.prems, of cfg rt ev] Cons.IH [of "step cfg rt s ev"]
  show ?case by simp
qed

lemma consumer_run:
  "consumer s \<noteq> None \<Longrightarrow>
     consumer (run cfg rt evs s) \<noteq> None \<and> consumers_created (run cfg rt evs s) = consumers_created s"
  unfolding run_def
proof (induction evs arbitrary: s)
  case Nil
  then show ?case by simp
next
  case (Cons ev evs)
  from consumer_step [OF Cons.prems, of cfg rt ev] Cons.IH [of "step cfg rt s ev"]
  show ?case by simp
qed

text \<open>What holds of the connections. At most one producer client and at most one
  consumer client are ever created, whatever calls and callbacks follow the
  construction of the engine, in whatever order. Once a creation has started (the
  memoized promise is set), \<^verbatim>\<open>createProducer\<close> (\<^verbatim>\<open>createConsumer\<close>) changes nothing,
  the memoized promise stays set and no later event starts another creation.\<close>

theorem single_connection:
  "producers_created (run cfg rt evs init) \<le> 1 \<and> consumers_created (run cfg rt evs init) \<le> 1 \<and>
   (producer s \<noteq> None \<longrightarrow>
      createProducer s = s \<and> producer (run cfg rt evs s) \<noteq> None \<and>
      producers_created (run cfg rt evs s) = producers_created s) \<and>
   (consumer s \<noteq> None \<longrightarrow>
      fst (createConsumer s) = s \<and> consumer (run cfg rt evs s) \<noteq> None \<and>
      consumers_created (run cfg rt evs s) = consumers_created s)"
proof -
  have "conn_ok init"
    by (simp add: conn_ok_def init_def producers_created_def consumers_created_def)
  then have "conn_ok (run cfg rt evs init)" by (rule conn_ok_run)
  then have "producers_created (run cfg rt evs init) \<le> 1 \<and> consumers_created (run cfg rt evs init) \<le> 1"
    by (simp add: conn_ok_def)
  moreover have "producer s \<noteq> None \<longrightarrow> createProducer s = s"
    by (simp add: createProducer_def)
  moreover have "consumer s \<noteq> None \<longrightarrow> fst (createConsumer s) = s"
    by (simp add: createConsumer_def)
  ultimately show ?thesis using producer_run [of s cfg rt evs] consumer_run [of s cfg rt evs]
    by blast
qed

theorem single_connection_witness:
  "producer (run cfg_envelope rt_example [Publish ''orders'' (JNum 42), Subscribe ''orders'' 5] init) \<noteq> None \<and>
   consumer (run cfg_envelope rt_example [Publish ''orders'' (JNum 42), Subscribe ''orders'' 5] init) \<noteq> None \<and>
   producers_created (run cfg_envelope rt_example
      [Publish ''a'' (JNum 42), Publish ''b'' (JNum 42), Subscribe ''a'' 5, Subscribe ''b'' 6]
      (run cfg_envelope rt_example [Publish ''orders'' (JNum 42), Subscribe ''orders'' 5] init)) = 1 \<and>
   consumers_created (run cfg_envelope rt_example
      [Publish ''a'' (JNum 42), Publish ''b'' (JNum 42), Subscribe ''a'' 5, Subscribe ''b'' 6]
      (run cfg_envelope rt_example [Publish ''orders'' (JNum 42), Subscribe ''orders'' 5] init)) = 1"
proof -
  let ?s = "run cfg_envelope rt_example [Publish ''orders'' (JNum 42), Subscribe ''orders'' 5] init"
  let ?evs = "[Publish ''a'' (JNum 42), Publish ''b'' (JNum 42), Subscribe ''a'' 5, Subscribe ''b'' 6]"
  have p: "producer ?s \<noteq> None" by (simp add: engine_defs example_defs)
  have c: "consumer ?s \<noteq> None" by (simp add: engine_defs example_defs)
  have pc: "producers_created ?s = 1"
    by (simp add: engine_defs example_defs producers_created_def)
  have cc: "consumers_created ?s = 1"
    by (simp add: engine_defs example_defs consumers_created_def)
  note inst = single_connection [of cfg_envelope rt_example ?evs ?s]
  from inst p have "producers_created (run cfg_envelope rt_example ?evs ?s) = producers_created ?s"
    by blast
  moreover from inst c have "consumers_created (run cfg_envelope rt_example ?evs ?s) = consumers_created ?s"
    by blast
  ultimately show ?thesis using p c pc cc by (simp only: simp_thms)
qed

text \<open>
  C2. A later call of \<^verbatim>\<open>createConsumer\<close> does not return the memoized handle. After a
  first \<^verbatim>\<open>subscribe\<close> has started the creation, \<^verbatim>\<open>createConsumer\<close> creates nothing
  more, but the promise it returns is already resolved instead of following
  \<^verbatim>\<open>this.consumer\<close>: a second \<^verbatim>\<open>subscribe\<close> resolves with id 1 while the consumer is
  still pending and the first \<^verbatim>\<open>subscribe\<close> still waits. One consumer was created.
\<close>

theorem createConsumer_later_call:
  "createConsumer (run cfg_envelope rt_example [Subscribe ''orders'' 5] init) =
     (run cfg_envelope rt_example [Subscribe ''orders'' 5] init, False) \<and>
   consumer (run cfg_envelope rt_example [Subscribe ''orders'' 5, Subscribe ''orders'' 6] init) =
     Some Pending \<and>
   results (run cfg_envelope rt_example [Subscribe ''orders'' 5, Subscribe ''orders'' 6] init) 0 = None \<and>
   results (run cfg_envelope rt_example [Subscribe ''orders'' 5, Subscribe ''orders'' 6] init) 1 =
     Some (ResolvedId 1) \<and>
   consumers_created (run cfg_envelope rt_example [Subscribe ''orders'' 5, Subscribe ''orders'' 6] init) = 1"
  by (simp add: engine_defs example_defs consumers_created_def)

text \<open>\<^verbatim>\<open>createProducer\<close> returns the memoized promise in every call: two calls of
  \<^verbatim>\<open>publish\<close> made before the producer is ready both wait for it.\<close>

lemma createProducer_later_call:
  "producer (run cfg_envelope rt_example [Publish ''orders'' (JNum 42), Publish ''orders'' (JNum 42)] init) =
     Some Pending \<and>
   results (run cfg_envelope rt_example [Publish ''orders'' (JNum 42), Publish ''orders'' (JNum 42)] init) 0 =
     None \<and>
   results (run cfg_envelope rt_example [Publish ''orders'' (JNum 42), Publish ''orders'' (JNum 42)] init) 1 =
     None \<and>
   producer_waiters (run cfg_envelope rt_example
      [Publish ''orders'' (JNum 42), Publish ''orders'' (JNum 42)] init) =
     [PublishK 0 ''orders'' (JNum 42), PublishK 1 ''orders'' (JNum 42)]"
  by (simp add: engine_defs example_defs)

section \<open>Missing topic\<close>

text \<open>
  C8. The configured topic \<^verbatim>\<open>events\<close> is absent from the metadata. The first
  \<^verbatim>\<open>subscribe\<close> is rejected with the topic error and the consumer is disconnected; a
  second \<^verbatim>\<open>subscribe\<close>, made after the failure or while the connection was still
  pending, resolves with the subscription id 1: \<^verbatim>\<open>createConsumer\<close> waits for the
  memoized promise only in the call that creates it.
\<close>

theorem subscribe_topic_absent:
  "results (run cfg_envelope rt_example
      [Subscribe ''orders'' 5, ConsumerReady [''other''], Subscribe ''orders'' 6] init) 0 =
     Some (RejectedWith topic_error) \<and>
   results (run cfg_envelope rt_example
      [Subscribe ''orders'' 5, ConsumerReady [''other''], Subscribe ''orders'' 6] init) 1 =
     Some (ResolvedId 1) \<and>
   results (run cfg_envelope rt_example
      [Subscribe ''orders'' 5, Subscribe ''orders'' 6, ConsumerReady [''other'']] init) 1 =
     Some (ResolvedId 1) \<and>
   client_calls (run cfg_envelope rt_example
      [Subscribe ''orders'' 5, ConsumerReady [''other''], Subscribe ''orders'' 6] init) =
     [NewConsumer, ConsumerConnect, ConsumerDisconnect None]"
  by (simp add: engine_defs example_defs)

text \<open>On the producer side every \<^verbatim>\<open>publish\<close> is rejected, the later ones too:
  \<^verbatim>\<open>createProducer\<close> waits for the memoized promise in every call.\<close>

lemma publish_topic_absent:
  "results (run cfg_envelope rt_example
      [Publish ''orders'' (JNum 42), ProducerReady [''other''], Publish ''orders'' (JNum 42)] init) 0 =
     Some (RejectedWith topic_error) \<and>
   results (run cfg_envelope rt_example
      [Publish ''orders'' (JNum 42), ProducerReady [''other''], Publish ''orders'' (JNum 42)] init) 1 =
     Some (RejectedWith topic_error)"
  by (simp add: engine_defs example_defs)

section \<open>Closing\<close>

text \<open>
  C4 as stated fails: with both connections ready, when the disconnect of the
  producer fails, \<^verbatim>\<open>close\<close> is rejected with that error at once, while the disconnect
  of the consumer is still pending; the error the consumer reports afterwards is
  discarded. \<^verbatim>\<open>Promise.all\<close> rejects with the first rejection and aggregates nothing.
\<close>

theorem close_counterexample:
  "results (run cfg_envelope rt_example
      [Publish ''orders'' (JNum 42), Subscribe ''orders'' 5, ProducerReady [''events''],
       ConsumerReady [''events''], Close, ProducerDisconnected 2 (Some (Reason ''p''))] init) 2 =
     Some (RejectedWith (Reason ''p'')) \<and>
   close_parts (run cfg_envelope rt_example
      [Publish ''orders'' (JNum 42), Subscribe ''orders'' 5, ProducerReady [''events''],
       ConsumerReady [''events''], Close, ProducerDisconnected 2 (Some (Reason ''p''))] init) 2 =
     Some (Rejected (Reason ''p''), Pending) \<and>
   results (run cfg_envelope rt_example
      [Publish ''orders'' (JNum 42), Subscribe ''orders'' 5, ProducerReady [''events''],
       ConsumerReady [''events''], Close, ProducerDisconnected 2 (Some (Reason ''p'')),
       ConsumerDisconnected 2 (Some (Reason ''c''))] init) 2 =
     Some (RejectedWith (Reason ''p''))"
  by (simp add: engine_defs example_defs)

text \<open>What the continuations and the \<^verbatim>\<open>ready\<close> handlers leave unchanged.\<close>

lemma frame_call_listeners [simp]:
  "client_calls (fst (call_listeners cfg rt ls args s)) = client_calls s"
  "close_parts (fst (call_listeners cfg rt ls args s)) = close_parts s"
  "results (fst (call_listeners cfg rt ls args s)) = results s"
  by (simp_all add: call_listeners_invocations)

lemma frame_ee_emit [simp]:
  "client_calls (fst (ee_emit cfg rt ev args s)) = client_calls s"
  "close_parts (fst (ee_emit cfg rt ev args s)) = close_parts s"
  "results (fst (ee_emit cfg rt ev args s)) = results s"
  by (simp_all add: ee_emit_def)

lemma frame_ee_addListener [simp]:
  "client_calls (fst (ee_addListener cfg rt ev l s)) = client_calls s"
  "close_parts (fst (ee_addListener cfg rt ev l s)) = close_parts s"
  "results (fst (ee_addListener cfg rt ev l s)) = results s"
proof -
  obtain s1 r where e: "ee_emit cfg rt ''newListener'' [Json (JStr ev), Fn l] s = (s1, r)"
    by (cases "ee_emit cfg rt ''newListener'' [Json (JStr ev), Fn l] s")
  then have "client_calls s1 = client_calls s \<and> close_parts s1 = close_parts s \<and> results s1 = results s"
    using frame_ee_emit [of cfg rt "''newListener''" "[Json (JStr ev), Fn l]" s] by simp
  with e show "client_calls (fst (ee_addListener cfg rt ev l s)) = client_calls s"
    and "close_parts (fst (ee_addListener cfg rt ev l s)) = close_parts s"
    and "results (fst (ee_addListener cfg rt ev l s)) = results s"
    by (cases r; simp add: ee_addListener_def)+
qed

lemma frame_subscribe_resume:
  "client_calls (subscribe_resume cfg rt t channel onMessage s) = client_calls s"
  "close_parts (subscribe_resume cfg rt t channel onMessage s) = close_parts s"
  "t \<noteq> u \<Longrightarrow> results (subscribe_resume cfg rt t channel onMessage s) u = results s u"
proof -
  obtain s1 r where a: "ee_addListener cfg rt channel (InternalMessage t onMessage) s = (s1, r)"
    by (cases "ee_addListener cfg rt channel (InternalMessage t onMessage) s")
  then have f: "client_calls s1 = client_calls s \<and> close_parts s1 = close_parts s \<and> results s1 = results s"
    using frame_ee_addListener [of cfg rt channel "InternalMessage t onMessage" s] by simp
  from a f show "client_calls (subscribe_resume cfg rt t channel onMessage s) = client_calls s"
    by (cases r) (simp_all add: subscribe_resume_def Let_def resolve_def)
  from a f show "close_parts (subscribe_resume cfg rt t channel onMessage s) = close_parts s"
    by (cases r) (simp_all add: subscribe_resume_def Let_def resolve_def)
  assume "t \<noteq> u"
  with a f show "results (subscribe_resume cfg rt t channel onMessage s) u = results s u"
    by (cases r) (simp_all add: subscribe_resume_def Let_def resolve_def)
qed

lemma resume_client_calls: "set (client_calls s) \<subseteq> set (client_calls (resume cfg rt r k s))"
  by (cases r; cases k) (auto simp add: resolve_def publish_resume_def frame_subscribe_resume)

lemma resume_all_client_calls: "set (client_calls s) \<subseteq> set (client_calls (resume_all cfg rt r ks s))"
proof (induction ks arbitrary: s)
  case Nil
  show ?case by simp
next
  case (Cons k ks)
  from resume_client_calls [of s cfg rt r k] Cons [of "resume cfg rt r k s"]
  show ?case by auto
qed

lemma resume_all_close_producer:
  "CloseProducerK t \<in> set ks \<Longrightarrow>
     ProducerDisconnect (Some t) \<in> set (client_calls (resume_all cfg rt None ks s))"
proof (induction ks arbitrary: s)
  case Nil
  then show ?case by simp
next
  case (Cons k ks)
  show ?case
  proof (cases "k = CloseProducerK t")
    case True
    then have "ProducerDisconnect (Some t) \<in> set (client_calls (resume cfg rt None k s))" by simp
    with resume_all_client_calls [of "resume cfg rt None k s" cfg rt None ks]
    show ?thesis by auto
  next
    case False
    with Cons.prems have "CloseProducerK t \<in> set ks" by simp
    from Cons.IH [OF this] show ?thesis by simp
  qed
qed

lemma resume_all_close_consumer:
  "CloseConsumerK t \<in> set ks \<Longrightarrow>
     ConsumerDisconnect (Some t) \<in> set (client_calls (resume_all cfg rt None ks s))"
proof (induction ks arbitrary: s)
  case Nil
  then show ?case by simp
next
  case (Cons k ks)
  show ?case
  proof (cases "k = CloseConsumerK t")
    case True
    then have "ConsumerDisconnect (Some t) \<in> set (client_calls (resume cfg rt None k s))" by simp
    with resume_all_client_calls [of "resume cfg rt None k s" cfg rt None ks]
    show ?thesis by auto
  next
    case False
    with Cons.prems have "CloseConsumerK t \<in> set ks" by simp
    from Cons.IH [OF this] show ?thesis by simp
  qed
qed

lemma resume_close_parts: "close_parts (resume cfg rt r k s) = close_parts s"
  by (cases r; cases k) (simp_all add: resolve_def publish_resume_def frame_subscribe_resume)

lemma resume_all_close_parts: "close_parts (resume_all cfg rt r ks s) = close_parts s"
  by (induction ks arbitrary: s) (simp_all add: resume_close_parts)

lemma resume_results: "ticket k \<noteq> Some t \<Longrightarrow> results (resume cfg rt r k s) t = results s t"
  by (cases r; cases k) (simp_all add: resolve_def publish_resume_def frame_subscribe_resume)

lemma resume_all_results:
  "\<forall>k\<in>set ks. ticket k \<noteq> Some t \<Longrightarrow> results (resume_all cfg rt r ks s) t = results s t"
  by (induction ks arbitrary: s) (simp_all add: resume_results)

lemma set_wake_order [simp]: "set (wake_order ks) = set ks"
  by (auto simp add: wake_order_def)

lemma close_frame:
  "results (close cfg rt s) = results s"
  "close_parts (close cfg rt s) (next_call s) = Some (Pending, Pending)"
  "producer (close cfg rt s) = producer s"
  "consumer (close cfg rt s) = consumer s"
  by (cases "producer s"; cases "consumer s";
      simp add: close_def Let_def await_producer_def await_consumer_def split: promise.splits)+

lemma close_waiters:
  "producer s = Some Pending \<Longrightarrow>
     producer_waiters (close cfg rt s) = producer_waiters s @ [CloseProducerK (next_call s)]"
  "consumer s = Some Pending \<Longrightarrow>
     consumer_waiters (close cfg rt s) = consumer_waiters s @ [CloseConsumerK (next_call s)]"
  "producer s \<noteq> Some Pending \<Longrightarrow> producer_waiters (close cfg rt s) = producer_waiters s"
  "consumer s \<noteq> Some Pending \<Longrightarrow> consumer_waiters (close cfg rt s) = consumer_waiters s"
  by (cases "producer s"; cases "consumer s";
      simp add: close_def Let_def await_producer_def await_consumer_def split: promise.splits)+

lemma ready_frame:
  "close_parts (producer_on_ready cfg rt topics s) = close_parts s"
  "close_parts (consumer_on_ready cfg rt topics s) = close_parts s"
  "\<forall>k\<in>set (producer_waiters s). ticket k \<noteq> Some t \<Longrightarrow>
     results (producer_on_ready cfg rt topics s) t = results s t"
  "\<forall>k\<in>set (consumer_waiters s). ticket k \<noteq> Some t \<Longrightarrow>
     results (consumer_on_ready cfg rt topics s) t = results s t"
  by (simp_all add: producer_on_ready_def consumer_on_ready_def settle_producer_def
      settle_consumer_def resume_all_close_parts resume_all_results log_def)

lemma ready_client_calls:
  "set (client_calls s) \<subseteq> set (client_calls (producer_on_ready cfg rt topics s))"
  "set (client_calls s) \<subseteq> set (client_calls (consumer_on_ready cfg rt topics s))"
proof -
  show "set (client_calls s) \<subseteq> set (client_calls (producer_on_ready cfg rt topics s))"
    using resume_all_client_calls [of _ cfg rt _ "wake_order (producer_waiters s)"]
    by (fastforce simp add: producer_on_ready_def settle_producer_def log_def)
  show "set (client_calls s) \<subseteq> set (client_calls (consumer_on_ready cfg rt topics s))"
    using resume_all_client_calls [of _ cfg rt _ "wake_order (consumer_waiters s)"]
    by (fastforce simp add: consumer_on_ready_def settle_consumer_def log_def)
qed

lemma close_then_producer_ready:
  assumes "producer s = Some Pending" and "topic cfg \<in> set topics"
  shows "ProducerDisconnect (Some (next_call s)) \<in>
     set (client_calls (producer_on_ready cfg rt topics (close cfg rt s)))"
  using assms
  by (simp add: producer_on_ready_def settle_producer_def close_frame close_waiters
      resume_all_close_producer)

lemma close_then_consumer_ready:
  assumes "consumer s = Some Pending" and "topic cfg \<in> set topics"
  shows "ConsumerDisconnect (Some (next_call s)) \<in>
     set (client_calls (consumer_on_ready cfg rt topics (close cfg rt s)))"
  using assms
  by (simp add: consumer_on_ready_def settle_consumer_def close_frame close_waiters
      resume_all_close_consumer)

lemma handles_call_listeners [simp]:
  "producer (fst (call_listeners cfg rt ls args s)) = producer s"
  "consumer (fst (call_listeners cfg rt ls args s)) = consumer s"
  "producer_waiters (fst (call_listeners cfg rt ls args s)) = producer_waiters s"
  "consumer_waiters (fst (call_listeners cfg rt ls args s)) = consumer_waiters s"
  by (simp_all add: call_listeners_invocations)

lemma handles_ee_emit [simp]:
  "producer (fst (ee_emit cfg rt ev args s)) = producer s"
  "consumer (fst (ee_emit cfg rt ev args s)) = consumer s"
  "producer_waiters (fst (ee_emit cfg rt ev args s)) = producer_waiters s"
  "consumer_waiters (fst (ee_emit cfg rt ev args s)) = consumer_waiters s"
  by (simp_all add: ee_emit_def)

lemma handles_ee_addListener [simp]:
  "producer (fst (ee_addListener cfg rt ev l s)) = producer s"
  "consumer (fst (ee_addListener cfg rt ev l s)) = consumer s"
  "producer_waiters (fst (ee_addListener cfg rt ev l s)) = producer_waiters s"
  "consumer_waiters (fst (ee_addListener cfg rt ev l s)) = consumer_waiters s"
proof -
  obtain s1 r where e: "ee_emit cfg rt ''newListener'' [Json (JStr ev), Fn l] s = (s1, r)"
    by (cases "ee_emit cfg rt ''newListener'' [Json (JStr ev), Fn l] s")
  then have "producer s1 = producer s \<and> consumer s1 = consumer s \<and>
      producer_waiters s1 = producer_waiters s \<and> consumer_waiters s1 = consumer_waiters s"
    using handles_ee_emit [of cfg rt "''newListener''" "[Json (JStr ev), Fn l]" s] by simp
  with e show "producer (fst (ee_addListener cfg rt ev l s)) = producer s"
    and "consumer (fst (ee_addListener cfg rt ev l s)) = consumer s"
    and "producer_waiters (fst (ee_addListener cfg rt ev l s)) = producer_waiters s"
    and "consumer_waiters (fst (ee_addListener cfg rt ev l s)) = consumer_waiters s"
    by (cases r; simp add: ee_addListener_def)+
qed

lemma handles_subscribe_resume:
  "producer (subscribe_resume cfg rt t channel onMessage s) = producer s"
  "consumer (subscribe_resume cfg rt t channel onMessage s) = consumer s"
  "producer_waiters (subscribe_resume cfg rt t channel onMessage s) = producer_waiters s"
  "consumer_waiters (subscribe_resume cfg rt t channel onMessage s) = consumer_waiters s"
proof -
  obtain s1 r where a: "ee_addListener cfg rt channel (InternalMessage t onMessage) s = (s1, r)"
    by (cases "ee_addListener cfg rt channel (InternalMessage t onMessage) s")
  then have "producer s1 = producer s \<and> consumer s1 = consumer s \<and>
      producer_waiters s1 = producer_waiters s \<and> consumer_waiters s1 = consumer_waiters s"
    using handles_ee_addListener [of cfg rt channel "InternalMessage t onMessage" s] by simp
  with a show "producer (subscribe_resume cfg rt t channel onMessage s) = producer s"
    and "consumer (subscribe_resume cfg rt t channel onMessage s) = consumer s"
    and "producer_waiters (subscribe_resume cfg rt t channel onMessage s) = producer_waiters s"
    and "consumer_waiters (subscribe_resume cfg rt t channel onMessage s) = consumer_waiters s"
    by (cases r; simp add: subscribe_resume_def Let_def resolve_def)+
qed

lemma handles_resume:
  "producer (resume cfg rt r k s) = producer s"
  "consumer (resume cfg rt r k s) = consumer s"
  "producer_waiters (resume cfg rt r k s) = producer_waiters s"
  "consumer_waiters (resume cfg rt r k s) = consumer_waiters s"
  by (cases r; cases k; simp add: resolve_def publish_resume_def handles_subscribe_resume)+

lemma handles_resume_all:
  "producer (resume_all cfg rt r ks s) = producer s"
  "consumer (resume_all cfg rt r ks s) = consumer s"
  "producer_waiters (resume_all cfg rt r ks s) = producer_waiters s"
  "consumer_waiters (resume_all cfg rt r ks s) = consumer_waiters s"
  by (induction ks arbitrary: s; simp add: handles_resume)+

lemma producer_ready_consumer_side:
  "consumer (producer_on_ready cfg rt topics s) = consumer s"
  "consumer_waiters (producer_on_ready cfg rt topics s) = consumer_waiters s"
  by (simp_all add: producer_on_ready_def settle_producer_def handles_resume_all log_def)

lemma connections_ready_open:
  assumes p: "producer s = Some Pending \<or> producer s = Some Fulfilled"
    and c: "consumer s = Some Pending \<or> consumer s = Some Fulfilled"
    and r: "results s (next_call s) = None"
    and f: "\<forall>k\<in>set (producer_waiters s @ consumer_waiters s). ticket k \<noteq> Some (next_call s)"
  shows "close_open (next_call s) (connections_ready cfg rt (close cfg rt s))"
proof -
  let ?t = "next_call s"
  let ?s1 = "close cfg rt s"
  let ?s2 = "if producer ?s1 = Some Pending then producer_on_ready cfg rt [topic cfg] ?s1 else ?s1"
  let ?s3 = "if consumer ?s2 = Some Pending then consumer_on_ready cfg rt [topic cfg] ?s2 else ?s2"
  have s3: "connections_ready cfg rt ?s1 = ?s3"
    by (simp add: connections_ready_def Let_def)
  have calls1: "client_calls ?s1 = client_calls s @
     (if producer s = Some Fulfilled then [ProducerDisconnect (Some ?t)] else []) @
     (if consumer s = Some Fulfilled then [ConsumerDisconnect (Some ?t)] else [])"
    by (cases "producer s"; cases "consumer s")
       (auto simp add: close_def Let_def await_producer_def await_consumer_def
         split: promise.splits)
  have pw1: "\<forall>k\<in>set (producer_waiters ?s1). ticket k \<noteq> Some ?t"
    using f by (cases "producer s = Some Pending") (auto simp add: close_waiters)
  have cw1: "\<forall>k\<in>set (consumer_waiters ?s1). ticket k \<noteq> Some ?t"
    using f by (cases "consumer s = Some Pending") (auto simp add: close_waiters)
  have cons2: "consumer ?s2 = consumer s" and cw2: "consumer_waiters ?s2 = consumer_waiters ?s1"
    by (simp_all add: producer_ready_consumer_side close_frame)
  have parts2: "close_parts ?s2 ?t = Some (Pending, Pending)"
    by (simp add: ready_frame close_frame)
  have res2: "results ?s2 ?t = None"
    using pw1 r by (simp add: ready_frame close_frame)
  have pd2: "ProducerDisconnect (Some ?t) \<in> set (client_calls ?s2)"
  proof (cases "producer s = Some Pending")
    case True
    then show ?thesis by (simp add: close_frame close_then_producer_ready)
  next
    case False
    with p have "producer s = Some Fulfilled" by simp
    then show ?thesis by (simp add: close_frame calls1)
  qed
  have cd2: "consumer s = Some Fulfilled \<Longrightarrow> ConsumerDisconnect (Some ?t) \<in> set (client_calls ?s2)"
  proof -
    assume "consumer s = Some Fulfilled"
    then have "ConsumerDisconnect (Some ?t) \<in> set (client_calls ?s1)" by (simp add: calls1)
    then show ?thesis
      using ready_client_calls(1) [of ?s1 cfg rt "[topic cfg]"] by auto
  qed
  have parts3: "close_parts ?s3 ?t = Some (Pending, Pending)"
    using parts2 by (simp add: ready_frame)
  have res3: "results ?s3 ?t = None"
    using res2 cw1 cw2 by (simp add: ready_frame)
  have pd3: "ProducerDisconnect (Some ?t) \<in> set (client_calls ?s3)"
    using pd2 ready_client_calls(2) [of ?s2 cfg rt "[topic cfg]"] by auto
  have cd3: "ConsumerDisconnect (Some ?t) \<in> set (client_calls ?s3)"
  proof (cases "consumer s = Some Pending")
    case True
    then have cp: "consumer ?s2 = Some Pending" using cons2 by simp
    from True have "CloseConsumerK ?t \<in> set (consumer_waiters ?s2)"
      by (simp add: cw2 close_waiters)
    then have "ConsumerDisconnect (Some ?t) \<in> set (client_calls (consumer_on_ready cfg rt [topic cfg] ?s2))"
      using cp by (simp add: consumer_on_ready_def settle_consumer_def resume_all_close_consumer)
    with cp show ?thesis by simp
  next
    case False
    with c have cf: "consumer s = Some Fulfilled" by simp
    then have "consumer ?s2 \<noteq> Some Pending" using cons2 by simp
    with cd2 [OF cf] show ?thesis by simp
  qed
  from parts3 res3 pd3 cd3 show ?thesis
    unfolding s3 close_open_def by simp
qed

lemma close_calls:
  "client_calls (close cfg rt s) =
     client_calls s @
     (if producer s = Some Fulfilled then [ProducerDisconnect (Some (next_call s))] else []) @
     (if consumer s = Some Fulfilled then [ConsumerDisconnect (Some (next_call s))] else [])"
  by (cases "producer s"; cases "consumer s")
     (auto simp add: close_def Let_def await_producer_def await_consumer_def
       split: promise.splits)

lemma close_open_settles:
  assumes "close_open t s"
  shows "results (producer_disconnect_callback t None s) t = None"
    and "results (consumer_disconnect_callback t None s) t = None"
    and "results (consumer_disconnect_callback t None (producer_disconnect_callback t None s)) t =
           Some ResolvedVoid"
    and "results (producer_disconnect_callback t None (consumer_disconnect_callback t None s)) t =
           Some ResolvedVoid"
    and "results (producer_disconnect_callback t (Some e) s) t = Some (RejectedWith e)"
    and "results (consumer_disconnect_callback t (Some e) s) t = Some (RejectedWith e)"
    and "results (consumer_disconnect_callback t err (producer_disconnect_callback t (Some e) s)) t =
           Some (RejectedWith e)"
    and "results (producer_disconnect_callback t err (consumer_disconnect_callback t (Some e) s)) t =
           Some (RejectedWith e)"
  using assms
  by (cases err;
      simp add: close_open_def producer_disconnect_callback_def consumer_disconnect_callback_def
        promise_all_def settled_def resolve_def)+

text \<open>
  C4 (amended). \<^verbatim>\<open>close()\<close> calls \<^verbatim>\<open>disconnect\<close> on the producer handle if one exists and
  on the consumer handle if one exists, in every combination: at once on a connection
  that is ready, and as soon as it becomes ready on one whose creation is still
  pending. Once both disconnects have been attempted, \<^verbatim>\<open>close()\<close> is still pending,
  stays pending after one successful disconnect, and resolves once both disconnects
  have succeeded; when a disconnect fails, \<^verbatim>\<open>close()\<close> is rejected at once with that
  error alone, and what the other side reports later, error or not, changes nothing.
\<close>

theorem close_disconnects:
  "client_calls (close cfg rt s) =
     client_calls s @
     (if producer s = Some Fulfilled then [ProducerDisconnect (Some (next_call s))] else []) @
     (if consumer s = Some Fulfilled then [ConsumerDisconnect (Some (next_call s))] else []) \<and>
   (producer s = Some Pending \<and> topic cfg \<in> set topics \<longrightarrow>
      ProducerDisconnect (Some (next_call s)) \<in>
        set (client_calls (producer_on_ready cfg rt topics (close cfg rt s)))) \<and>
   (consumer s = Some Pending \<and> topic cfg \<in> set topics \<longrightarrow>
      ConsumerDisconnect (Some (next_call s)) \<in>
        set (client_calls (consumer_on_ready cfg rt topics (close cfg rt s)))) \<and>
   ((producer s = Some Pending \<or> producer s = Some Fulfilled) \<and>
    (consumer s = Some Pending \<or> consumer s = Some Fulfilled) \<and>
    results s (next_call s) = None \<and>
    (\<forall>k\<in>set (producer_waiters s @ consumer_waiters s). ticket k \<noteq> Some (next_call s)) \<longrightarrow>
      results (close cfg rt s) (next_call s) = None \<and>
      close_open (next_call s) (connections_ready cfg rt (close cfg rt s))) \<and>
   (close_open t s' \<longrightarrow>
      results (producer_disconnect_callback t None s') t = None \<and>
      results (consumer_disconnect_callback t None s') t = None \<and>
      results (consumer_disconnect_callback t None (producer_disconnect_callback t None s')) t =
        Some ResolvedVoid \<and>
      results (producer_disconnect_callback t None (consumer_disconnect_callback t None s')) t =
        Some ResolvedVoid \<and>
      results (producer_disconnect_callback t (Some e) s') t = Some (RejectedWith e) \<and>
      results (consumer_disconnect_callback t (Some e) s') t = Some (RejectedWith e) \<and>
      results (consumer_disconnect_callback t err (producer_disconnect_callback t (Some e) s')) t =
        Some (RejectedWith e) \<and>
      results (producer_disconnect_callback t err (consumer_disconnect_callback t (Some e) s')) t =
        Some (RejectedWith e))"
proof (intro conjI impI)
  show "client_calls (close cfg rt s) =
     client_calls s @
     (if producer s = Some Fulfilled then [ProducerDisconnect (Some (next_call s))] else []) @
     (if consumer s = Some Fulfilled then [ConsumerDisconnect (Some (next_call s))] else [])"
    by (rule close_calls)
next
  assume "producer s = Some Pending \<and> topic cfg \<in> set topics"
  then show "ProducerDisconnect (Some (next_call s)) \<in>
      set (client_calls (producer_on_ready cfg rt topics (close cfg rt s)))"
    by (simp add: close_then_producer_ready)
next
  assume "consumer s = Some Pending \<and> topic cfg \<in> set topics"
  then show "ConsumerDisconnect (Some (next_call s)) \<in>
      set (client_calls (consumer_on_ready cfg rt topics (close cfg rt s)))"
    by (simp add: close_then_consumer_ready)
next
  assume h: "(producer s = Some Pending \<or> producer s = Some Fulfilled) \<and>
    (consumer s = Some Pending \<or> consumer s = Some Fulfilled) \<and>
    results s (next_call s) = None \<and>
    (\<forall>k\<in>set (producer_waiters s @ consumer_waiters s). ticket k \<noteq> Some (next_call s))"
  then show "results (close cfg rt s) (next_call s) = None"
    by (simp add: close_frame)
  from h show "close_open (next_call s) (connections_ready cfg rt (close cfg rt s))"
    by (intro connections_ready_open) simp_all
next
  assume o: "close_open t s'"
  show "results (producer_disconnect_callback t None s') t = None"
    and "results (consumer_disconnect_callback t None s') t = None"
    and "results (consumer_disconnect_callback t None (producer_disconnect_callback t None s')) t =
        Some ResolvedVoid"
    and "results (producer_disconnect_callback t None (consumer_disconnect_callback t None s')) t =
        Some ResolvedVoid"
    and "results (producer_disconnect_callback t (Some e) s') t = Some (RejectedWith e)"
    and "results (consumer_disconnect_callback t (Some e) s') t = Some (RejectedWith e)"
    and "results (consumer_disconnect_callback t err (producer_disconnect_callback t (Some e) s')) t =
        Some (RejectedWith e)"
    and "results (producer_disconnect_callback t err (consumer_disconnect_callback t (Some e) s')) t =
        Some (RejectedWith e)"
    by (rule close_open_settles [OF o])+
qed

theorem close_disconnects_witness:
  "producer (run cfg_envelope rt_example [Publish ''orders'' (JNum 42), Subscribe ''orders'' 5] init) =
     Some Pending \<and>
   consumer (run cfg_envelope rt_example [Publish ''orders'' (JNum 42), Subscribe ''orders'' 5] init) =
     Some Pending \<and>
   ProducerDisconnect (Some 2) \<in> set (client_calls (producer_on_ready cfg_envelope rt_example [''events'']
     (close cfg_envelope rt_example
       (run cfg_envelope rt_example [Publish ''orders'' (JNum 42), Subscribe ''orders'' 5] init)))) \<and>
   ConsumerDisconnect (Some 2) \<in> set (client_calls (consumer_on_ready cfg_envelope rt_example [''events'']
     (close cfg_envelope rt_example
       (run cfg_envelope rt_example [Publish ''orders'' (JNum 42), Subscribe ''orders'' 5] init)))) \<and>
   close_open 2 (connections_ready cfg_envelope rt_example (close cfg_envelope rt_example
     (run cfg_envelope rt_example [Publish ''orders'' (JNum 42), Subscribe ''orders'' 5] init))) \<and>
   results (consumer_disconnect_callback 2 None (producer_disconnect_callback 2 None
     (connections_ready cfg_envelope rt_example (close cfg_envelope rt_example
       (run cfg_envelope rt_example [Publish ''orders'' (JNum 42), Subscribe ''orders'' 5] init))))) 2 =
     Some ResolvedVoid \<and>
   results (consumer_disconnect_callback 2 (Some (Reason ''c'')) (producer_disconnect_callback 2 (Some (Reason ''p''))
     (connections_ready cfg_envelope rt_example (close cfg_envelope rt_example
       (run cfg_envelope rt_example [Publish ''orders'' (JNum 42), Subscribe ''orders'' 5] init))))) 2 =
     Some (RejectedWith (Reason ''p''))"
proof -
  let ?s = "run cfg_envelope rt_example [Publish ''orders'' (JNum 42), Subscribe ''orders'' 5] init"
  let ?s' = "connections_ready cfg_envelope rt_example (close cfg_envelope rt_example ?s)"
  have p: "producer ?s = Some Pending" by (simp add: engine_defs example_defs)
  have c: "consumer ?s = Some Pending" by (simp add: engine_defs example_defs)
  have n: "next_call ?s = 2" by (simp add: engine_defs example_defs)
  have r: "results ?s 2 = None" by (simp add: engine_defs example_defs)
  have f: "\<forall>k\<in>set (producer_waiters ?s @ consumer_waiters ?s). ticket k \<noteq> Some 2"
    by (simp add: engine_defs example_defs)
  have t: "topic cfg_envelope \<in> set [''events'']" by (simp add: cfg_envelope_def)
  note inst = close_disconnects [of cfg_envelope rt_example ?s "[''events'']" 2 ?s'
      "Reason ''p''" "Some (Reason ''c'')", unfolded n]
  from inst p t have a: "ProducerDisconnect (Some 2) \<in> set (client_calls
      (producer_on_ready cfg_envelope rt_example [''events''] (close cfg_envelope rt_example ?s)))"
    by blast
  from inst c t have b: "ConsumerDisconnect (Some 2) \<in> set (client_calls
      (consumer_on_ready cfg_envelope rt_example [''events''] (close cfg_envelope rt_example ?s)))"
    by blast
  from inst p c r f have o: "close_open 2 ?s'" by blast
  from inst o have d: "results (consumer_disconnect_callback 2 None
      (producer_disconnect_callback 2 None ?s')) 2 = Some ResolvedVoid"
    by blast
  from inst o have e: "results (consumer_disconnect_callback 2 (Some (Reason ''c''))
      (producer_disconnect_callback 2 (Some (Reason ''p'')) ?s')) 2 = Some (RejectedWith (Reason ''p''))"
    by blast
  from p c a b o d e show ?thesis by (simp only: simp_thms)
qed

text \<open>A \<^verbatim>\<open>close\<close> that waits for the producer goes on before the \<^verbatim>\<open>publish\<close> that
  created it: the connection is disconnected before the message is produced.\<close>

lemma close_pending_order:
  "client_calls (run cfg_envelope rt_example
      [Publish ''orders'' (JNum 42), Close, ProducerReady [''events'']] init) =
     [NewProducer, ProducerConnect, ProducerDisconnect (Some 1),
      Produce 0 (produce_call cfg_envelope rt_example ''orders'' (JNum 42))]"
  by (simp add: engine_defs example_defs)

section \<open>Decode failures in the data handler\<close>

text \<open>
  C3 as stated fails: in envelope mode a value that cannot be deserialised makes the
  data handler raise the syntax error of \<^verbatim>\<open>JSON.parse\<close>; nothing catches it.
\<close>

theorem decode_failure_counterexample:
  "consumer_on_data cfg_envelope rt_example \<lparr>m_value = ''oops'', m_key = None, m_headers = None\<rparr> init
     = (init, Some SyntaxError)"
  by (simp add: consumer_on_data_def cfg_envelope_def rt_example_def example_parse_def
      deserialiseMessage_def)

text \<open>
  C3 (amended). In header mode a message whose headers hold no \<^verbatim>\<open>channel\<close> entry is
  dropped: the handler logs the warning, calls no listener and raises nothing. In
  envelope mode a value that cannot be deserialised reaches no listener and changes
  nothing, and the handler raises the syntax error.
\<close>

theorem decode_failure:
  "(useHeaders cfg \<and> m_headers msg = Some hs \<and> (\<forall>h\<in>set hs. map_of h ''channel'' = None) \<longrightarrow>
      consumer_on_data cfg rt msg s = (log Warn ''Missing 'channel' header'' [] s, None)) \<and>
   (\<not> useHeaders cfg \<and> JSON_parse rt (m_value msg) = None \<longrightarrow>
      consumer_on_data cfg rt msg s = (s, Some SyntaxError))"
proof (intro conjI impI)
  assume h: "useHeaders cfg \<and> m_headers msg = Some hs \<and> (\<forall>h\<in>set hs. map_of h ''channel'' = None)"
  then have "List.find (\<lambda>h. map_of h ''channel'' \<noteq> None) hs = None"
    by (simp add: find_None_iff)
  with h show "consumer_on_data cfg rt msg s = (log Warn ''Missing 'channel' header'' [] s, None)"
    unfolding consumer_on_data_def by simp
next
  assume "\<not> useHeaders cfg \<and> JSON_parse rt (m_value msg) = None"
  then show "consumer_on_data cfg rt msg s = (s, Some SyntaxError)"
    by (simp add: consumer_on_data_def deserialiseMessage_def)
qed

theorem decode_failure_witness:
  "consumer_on_data cfg_headers rt_example \<lparr>m_value = ''42'', m_key = None, m_headers = Some [[(''other'', ''x'')]]\<rparr> init
     = (log Warn ''Missing 'channel' header'' [] init, None) \<and>
   consumer_on_data cfg_envelope rt_example \<lparr>m_value = ''{'', m_key = None, m_headers = None\<rparr> init
     = (init, Some SyntaxError)"
  using decode_failure [of cfg_headers "\<lparr>m_value = ''42'', m_key = None, m_headers = Some [[(''other'', ''x'')]]\<rparr>"
      "[[(''other'', ''x'')]]" rt_example init]
    decode_failure [of cfg_envelope "\<lparr>m_value = ''{'', m_key = None, m_headers = None\<rparr>" "[]" rt_example init]
  by (simp add: cfg_headers_def cfg_envelope_def rt_example_def example_parse_def)

section \<open>Routing in the data handler\<close>

text \<open>
  C5 as stated fails on the message whose value is the JSON text \<^verbatim>\<open>null\<close>: the
  deserialised value has no \<^verbatim>\<open>channel\<close> field, reading the field of \<^verbatim>\<open>null\<close> raises a
  type error, and the listener subscribed to the topic name is not called.
\<close>

theorem envelope_fallback_counterexample:
  "consumer_on_data cfg_envelope rt_example \<lparr>m_value = ''null'', m_key = None, m_headers = None\<rparr>
     (subscribe_resume cfg_envelope rt_example 0 ''events'' 5 init) =
   (subscribe_resume cfg_envelope rt_example 0 ''events'' 5 init, Some TypeError)"
  by (simp add: consumer_on_data_def deserialiseMessage_def cfg_envelope_def rt_example_def
      example_parse_def)

text \<open>
  C5 (amended). In envelope mode, a message whose deserialised value is not \<^verbatim>\<open>null\<close>
  and has no \<^verbatim>\<open>channel\<close> field (reading the field gives \<^verbatim>\<open>undefined\<close>) is dispatched
  on the channel named by the configured topic, with the whole deserialised value as
  argument; the listeners subscribed to the topic name receive it, in order, when none
  of them raises.
\<close>

theorem envelope_fallback:
  assumes "\<not> useHeaders cfg" and "JSON_parse rt (m_value msg) = Some v"
    and "get_property v ''channel'' = Inr Undefined"
  shows "consumer_on_data cfg rt msg s = ee_emit cfg rt (topic cfg) [Json v] s \<and>
    ((\<forall>l\<in>set (listeners (topic cfg) s). onMessage_raises rt (onMessage_of l) [Json v] = None) \<longrightarrow>
       delivered (fst (consumer_on_data cfg rt msg s)) =
         delivered s @ map (\<lambda>l. (onMessage_of l, [Json v])) (listeners (topic cfg) s))"
proof -
  have eq: "consumer_on_data cfg rt msg s = ee_emit cfg rt (topic cfg) [Json v] s"
    using assms by (simp add: consumer_on_data_def deserialiseMessage_def)
  show ?thesis
    using assms(1) by (simp add: eq ee_emit_delivered invocations_envelope)
qed

theorem envelope_fallback_witness:
  \<open>consumer_on_data cfg_envelope rt_example
       \<lparr>m_value = ''{"id":42}'', m_key = None, m_headers = None\<rparr>
       (subscribe_resume cfg_envelope rt_example 0 ''events'' 5 init) =
     ee_emit cfg_envelope rt_example ''events'' [Json (JObj [(''id'', JNum 42)])]
       (subscribe_resume cfg_envelope rt_example 0 ''events'' 5 init) \<and>
   delivered (fst (consumer_on_data cfg_envelope rt_example
       \<lparr>m_value = ''{"id":42}'', m_key = None, m_headers = None\<rparr>
       (subscribe_resume cfg_envelope rt_example 0 ''events'' 5 init))) =
     [(5, [Json (JObj [(''id'', JNum 42)])])]\<close>
  using envelope_fallback [of cfg_envelope rt_example
      \<open>\<lparr>m_value = ''{"id":42}'', m_key = None, m_headers = None\<rparr>\<close>
      "JObj [(''id'', JNum 42)]" "subscribe_resume cfg_envelope rt_example 0 ''events'' 5 init"]
  by (simp add: engine_defs example_defs)

text \<open>
  C6 as stated fails: the callback of the subscriber receives the parsed value, here
  the number 42, not the raw bytes.
\<close>

theorem header_mode_listener_argument_counterexample:
  "delivered (fst (consumer_on_data cfg_headers rt_example
       \<lparr>m_value = ''42'', m_key = None, m_headers = Some [[(''channel'', ''orders'')]]\<rparr>
       (subscribe_resume cfg_headers rt_example 0 ''orders'' 5 init))) = [(5, [Json (JNum 42)])] \<and>
   delivered (fst (consumer_on_data cfg_headers rt_example
       \<lparr>m_value = ''42'', m_key = None, m_headers = Some [[(''channel'', ''orders'')]]\<rparr>
       (subscribe_resume cfg_headers rt_example 0 ''orders'' 5 init))) \<noteq> [(5, [Bytes ''42''])]"
  by (simp add: engine_defs example_defs)

text \<open>
  C6 (amended). In header mode, for a message that carries a \<^verbatim>\<open>channel\<close> header, the
  data handler hands the raw value to the emitter unparsed; the listener that
  \<^verbatim>\<open>subscribe\<close> registered then parses it, and the subscriber's callback receives the
  parsed value (and is not called when the value is not JSON).
\<close>

theorem header_mode_listener_argument:
  assumes "useHeaders cfg" and "m_headers msg = Some hs"
    and "List.find (\<lambda>h. map_of h ''channel'' \<noteq> None) hs = Some h"
    and "map_of h ''channel'' = Some channel"
  shows "consumer_on_data cfg rt msg s = ee_emit cfg rt channel [Bytes (m_value msg)] s \<and>
    internalMessage cfg rt (InternalMessage i onMessage) [Bytes (m_value msg)] =
      (case JSON_parse rt (m_value msg) of
         None \<Rightarrow> ([], Some SyntaxError)
       | Some v \<Rightarrow> ([(onMessage, [Json v])], onMessage_raises rt onMessage [Json v]))"
  using assms by (simp add: consumer_on_data_def deserialiseMessage_def split: option.splits)

theorem header_mode_listener_argument_witness:
  "consumer_on_data cfg_headers rt_example
       \<lparr>m_value = ''42'', m_key = None, m_headers = Some [[(''channel'', ''orders'')]]\<rparr>
       (subscribe_resume cfg_headers rt_example 0 ''orders'' 5 init) =
     ee_emit cfg_headers rt_example ''orders'' [Bytes ''42'']
       (subscribe_resume cfg_headers rt_example 0 ''orders'' 5 init) \<and>
   internalMessage cfg_headers rt_example (InternalMessage 0 5) [Bytes ''42''] =
     ([(5, [Json (JNum 42)])], None)"
  using header_mode_listener_argument [of cfg_headers
      "\<lparr>m_value = ''42'', m_key = None, m_headers = Some [[(''channel'', ''orders'')]]\<rparr>"
      "[[(''channel'', ''orders'')]]" "[(''channel'', ''orders'')]" "''orders''" rt_example
      "subscribe_resume cfg_headers rt_example 0 ''orders'' 5 init" 0 5]
  by (simp add: example_defs)



section \<open>Dispatch to the listeners of a channel\<close>

text \<open>
  C7 as stated fails: with two listeners on a channel, the first of which raises, the
  second is not called and the exception leaves the dispatch.
\<close>

theorem dispatch_order_counterexample:
  "ee_emit cfg_envelope rt_example ''orders'' [Json (JNum 42)]
     (subscribe_resume cfg_envelope rt_example 1 ''orders'' 2
       (subscribe_resume cfg_envelope rt_example 0 ''orders'' 1 init)) =
   ((subscribe_resume cfg_envelope rt_example 1 ''orders'' 2
       (subscribe_resume cfg_envelope rt_example 0 ''orders'' 1 init))
      \<lparr>delivered := [(1, [Json (JNum 42)])]\<rparr>, Some (Reason ''boom''))"
  by (simp add: engine_defs example_defs)

text \<open>
  C7 (amended). A dispatch on a channel calls the listeners registered for it in
  registration order, up to and including the first one that raises: its exception
  leaves the dispatch and the listeners after it are not called. When none raises, all
  are called. (With no listener at all, the event named \<^verbatim>\<open>error\<close> raises.)
\<close>

theorem dispatch_order:
  "ee_emit cfg rt channel args s =
     (if listeners channel s = [] \<and> channel = ''error'' then (s, Some UnhandledError)
      else (s\<lparr>delivered := delivered s @
               concat (map (\<lambda>l. fst (internalMessage cfg rt l args))
                 (take (Suc (length (takeWhile (quiet cfg rt args) (listeners channel s))))
                    (listeners channel s)))\<rparr>,
            if length (takeWhile (quiet cfg rt args) (listeners channel s)) < length (listeners channel s)
            then snd (internalMessage cfg rt
                   (listeners channel s ! length (takeWhile (quiet cfg rt args) (listeners channel s))) args)
            else None))"
proof (cases "listeners channel s = [] \<and> channel = ''error''")
  case True
  show ?thesis
    unfolding ee_emit_def if_P [OF True] by (rule refl)
next
  case False
  have "ee_emit cfg rt channel args s = call_listeners cfg rt (listeners channel s) args s"
    unfolding ee_emit_def if_not_P [OF False] by (rule refl)
  also have "\<dots> = (s\<lparr>delivered := delivered s @ fst (invocations cfg rt (listeners channel s) args)\<rparr>,
      snd (invocations cfg rt (listeners channel s) args))"
    by (rule call_listeners_invocations)
  finally have emit: "ee_emit cfg rt channel args s =
      (s\<lparr>delivered := delivered s @ fst (invocations cfg rt (listeners channel s) args)\<rparr>,
       snd (invocations cfg rt (listeners channel s) args))" .
  show ?thesis
    unfolding if_not_P [OF False] emit
    by (simp add: invocations_prefix [of cfg rt "listeners channel s" args])
qed

section \<open>Unsubscribing an unknown id\<close>

text \<open>
  C9. For every id that is not in the subscriptions registry, \<^verbatim>\<open>unsubscribe(id)\<close>
  raises to its caller (the type error of destructuring \<^verbatim>\<open>undefined\<close>) and leaves
  the whole state as it was: no entry of the registry and no listener registration is
  removed or altered.
\<close>

theorem unsubscribe_unknown_id:
  "subscriptions s index = None \<Longrightarrow>
     unsubscribe cfg rt index s = (s, Some TypeError) \<and> step cfg rt s (Unsubscribe index) = s"
  by (simp add: unsubscribe_def)

theorem unsubscribe_unknown_id_witness:
  "subscriptions init 7 = None \<and>
   unsubscribe cfg_envelope rt_example 7 init = (init, Some TypeError) \<and>
   step cfg_envelope rt_example init (Unsubscribe 7) = init"
  using unsubscribe_unknown_id [of init 7 cfg_envelope rt_example]
  by (simp add: init_def)

end
